theory Spec2Isabelle
  imports Main "HOL-Library.Sublist"
begin

section \<open>The Vitest provider of the Webstir test host (src/src/provider.ts)\<close>

text \<open>
  A shallow embedding of \<^verbatim>\<open>provider.ts\<close>. JavaScript strings are \<open>string\<close>
  (a list of code units, restricted to the 8-bit range), an optional field
  (\<^verbatim>\<open>field?: T\<close>, \<^verbatim>\<open>undefined\<close>, \<^verbatim>\<open>null\<close>) is an \<open>option\<close>, and a
  duration is an \<open>int\<close> of milliseconds (the rounding of doubles, \<^verbatim>\<open>NaN\<close> and
  the infinities are outside the model). Array mutation (\<^verbatim>\<open>push\<close>) is explicit
  accumulator passing; a promise that may reject is a sum type with \<open>Inl\<close> the
  thrown value; \<^verbatim>\<open>process.env\<close> is a map that is threaded through the call.
  The diagnostic side channel (\<^verbatim>\<open>console.warn\<close>, \<^verbatim>\<open>console.info\<close>) is not
  part of any returned value and is left out.
\<close>

subsection \<open>Strings: \<^verbatim>\<open>trim\<close> and \<^verbatim>\<open>join\<close>\<close>

text \<open>
  \<^verbatim>\<open>String.prototype.trim\<close> strips white space and line terminators from both ends.
  Of these, the code units below 256 are TAB, LF, VT, FF, CR, SPACE and NBSP.
\<close>

definition js_whitespace :: "char \<Rightarrow> bool" where
  "js_whitespace c =
     (c = CHR 0x09 \<or> c = CHR 0x0A \<or> c = CHR 0x0B \<or> c = CHR 0x0C \<or> c = CHR 0x0D \<or>
      c = CHR 0x20 \<or> c = CHR 0xA0)"

definition trim :: "string \<Rightarrow> string" where
  "trim s = rev (dropWhile js_whitespace (rev (dropWhile js_whitespace s)))"

text \<open>\<^verbatim>\<open>Array.prototype.join\<close> on an array of strings.\<close>

fun js_join :: "string \<Rightarrow> string list \<Rightarrow> string" where
  "js_join sep [] = []"
| "js_join sep [x] = x"
| "js_join sep (x # y # ys) = x @ sep @ js_join sep (y # ys)"

text \<open>The separator \<^verbatim>\<open>'\n\n'\<close>.\<close>

definition blank_line :: string where
  "blank_line = [CHR 0x0A, CHR 0x0A]"

text \<open>\<^verbatim>\<open>Array.prototype.indexOf\<close>: the first index of a value, or -1.\<close>

fun indexOf :: "'a list \<Rightarrow> 'a \<Rightarrow> int" where
  "indexOf [] v = -1"
| "indexOf (x # xs) v =
     (if x = v then 0 else (let i = indexOf xs v in if i < 0 then -1 else i + 1))"

text \<open>
  \<^verbatim>\<open>array.filter((value, index, array) => ...)\<close>: the callback sees each element
  with its index; the array argument is the receiver and is passed by the caller.
\<close>

fun filter_from :: "nat \<Rightarrow> ('a \<Rightarrow> nat \<Rightarrow> bool) \<Rightarrow> 'a list \<Rightarrow> 'a list" where
  "filter_from i p [] = []"
| "filter_from i p (x # xs) =
     (if p x i then x # filter_from (Suc i) p xs else filter_from (Suc i) p xs)"

definition filter_indexed :: "('a \<Rightarrow> nat \<Rightarrow> bool) \<Rightarrow> 'a list \<Rightarrow> 'a list" where
  "filter_indexed p xs = filter_from 0 p xs"

subsection \<open>The data model\<close>

text \<open>
  The host's \<^verbatim>\<open>TestRunResult\<close> and \<^verbatim>\<open>RunnerSummary\<close>. Both have fields
  \<^verbatim>\<open>passed\<close> and \<^verbatim>\<open>durationMs\<close>, so the fields carry the record as a prefix.
\<close>

record TestRunResult =
  res_name :: string
  res_file :: string
  res_passed :: bool
  res_message :: "string option"
  res_durationMs :: int

record RunnerSummary =
  summary_passed :: int
  summary_failed :: int
  summary_total :: int
  summary_durationMs :: int
  summary_results :: "TestRunResult list"

text \<open>
  \<^verbatim>\<open>VitestTaskError\<close> and the entries of its \<^verbatim>\<open>stacks\<close>. The code tests every error
  and every stack entry for being falsy before it reads a field, so both arrays hold
  optional entries.
\<close>

record VitestStack =
  stack_message :: "string option"
  stack_stack :: "string option"

record VitestTaskError =
  error_message :: "string option"
  error_stack :: "string option"
  error_stacks :: "VitestStack option list option"

text \<open>The \<^verbatim>\<open>result\<close> object of a task.\<close>

record VitestTaskOutcome =
  state :: "string option"
  duration :: "int option"
  errors :: "VitestTaskError option list option"

text \<open>
  \<^verbatim>\<open>VitestTaskResult\<close>: a node of the engine's result tree. The array of children
  may be absent, and an entry of it may be null (the code skips a falsy task).
\<close>

datatype VitestTaskResult =
  VitestTaskResult
    (task_type: "string option")
    (task_name: "string option")
    (task_mode: "string option")
    (task_tasks: "VitestTaskResult option list option")
    (task_result: "VitestTaskOutcome option")

text \<open>\<^verbatim>\<open>VitestModuleResult\<close>: one entry of \<^verbatim>\<open>getFiles()\<close>.\<close>

record VitestModuleOutcome =
  module_state :: "string option"
  module_duration :: "int option"

record VitestModuleResult =
  filepath :: "string option"
  module_result :: "VitestModuleOutcome option"
  module_tasks :: "VitestTaskResult option list option"

text \<open>
  A value of type \<^verbatim>\<open>unknown\<close>: a thrown value or an unhandled error reported by the
  engine. \<open>JsError\<close> is an instance of \<^verbatim>\<open>Error\<close> with its message and stack,
  \<open>JsString\<close> a primitive string. For any other value the model carries what
  \<^verbatim>\<open>JSON.stringify(value, null, 2)\<close> returns (\<open>None\<close> when it throws) and what
  \<^verbatim>\<open>String(value)\<close> returns.
\<close>

datatype js_unknown =
  JsError (js_message: string) (js_stack: "string option")
| JsString string
| JsOther (js_json: "string option") (js_coerced: string)

subsection \<open>Error Message Reconciler: \<^verbatim>\<open>formatTaskErrors\<close>\<close>

text \<open>
  The test \<^verbatim>\<open>typeof s === 'string' && s.trim().length > 0\<close> on an optional string
  field, returning the trimmed text that the code pushes when the test succeeds.
\<close>

definition nonblank_trim :: "string option \<Rightarrow> string option" where
  "nonblank_trim s =
     (case s of
        None \<Rightarrow> None
      | Some t \<Rightarrow> if length (trim t) > 0 then Some (trim t) else None)"

text \<open>The inner loop over \<^verbatim>\<open>error.stacks\<close>, pushing onto \<^verbatim>\<open>messages\<close>.\<close>

fun push_stacks :: "VitestStack option list \<Rightarrow> string list \<Rightarrow> string list" where
  "push_stacks [] messages = messages"
| "push_stacks (None # rest) messages = push_stacks rest messages"
| "push_stacks (Some stack # rest) messages =
     (case nonblank_trim (stack_message stack) of
        Some m \<Rightarrow> push_stacks rest (messages @ [m])
      | None \<Rightarrow>
          (case nonblank_trim (stack_stack stack) of
             Some t \<Rightarrow> push_stacks rest (messages @ [t])
           | None \<Rightarrow> push_stacks rest messages))"

text \<open>The body of the outer loop for one non-null error, and the loop.\<close>

definition push_error :: "VitestTaskError \<Rightarrow> string list \<Rightarrow> string list" where
  "push_error error messages =
     (let messages1 =
            (case nonblank_trim (error_message error) of
               Some m \<Rightarrow> messages @ [m]
             | None \<Rightarrow> messages)
      in case error_stacks error of
           Some stacks \<Rightarrow> push_stacks stacks messages1
         | None \<Rightarrow>
             (case nonblank_trim (error_stack error) of
                Some t \<Rightarrow> messages1 @ [t]
              | None \<Rightarrow> messages1))"

fun push_errors :: "VitestTaskError option list \<Rightarrow> string list \<Rightarrow> string list" where
  "push_errors [] messages = messages"
| "push_errors (None # rest) messages = push_errors rest messages"
| "push_errors (Some error # rest) messages = push_errors rest (push_error error messages)"

definition formatTaskErrors :: "VitestTaskError option list option \<Rightarrow> string option" where
  "formatTaskErrors errs =
     (case errs of
        None \<Rightarrow> None
      | Some es \<Rightarrow>
          if length es = 0 then None
          else
            (let messages = push_errors es [];
                 unique = filter_indexed
                   (\<lambda>value index. length value > 0 \<and> indexOf messages value = int index)
                   messages
             in if length unique > 0 then Some (js_join blank_line unique) else None))"

subsection \<open>\<^verbatim>\<open>formatUnhandledError\<close>\<close>

definition formatUnhandledError :: "js_unknown \<Rightarrow> string" where
  "formatUnhandledError error =
     (case error of
        JsError msg stack \<Rightarrow>
          (let fallback = (if msg \<noteq> [] then msg else ''Unhandled error'')
           in case stack of
                Some st \<Rightarrow> if st \<noteq> [] \<and> length (trim st) > 0 then st else fallback
              | None \<Rightarrow> fallback)
      | JsString s \<Rightarrow> s
      | JsOther json coerced \<Rightarrow> (case json of Some text \<Rightarrow> text | None \<Rightarrow> coerced))"

subsection \<open>Result Tree Flattener: \<^verbatim>\<open>collectTaskResults\<close>\<close>

text \<open>
  Lines 305 to 330: the one result pushed for a task typed \<^verbatim>\<open>'test'\<close>. The state is
  \<^verbatim>\<open>task.result?.state\<close>, or the mode when that is nullish and the mode is
  \<^verbatim>\<open>'skip'\<close> or \<^verbatim>\<open>'todo'\<close>.
\<close>

definition task_state :: "VitestTaskResult \<Rightarrow> string option" where
  "task_state task =
     (case (case task_result task of None \<Rightarrow> None | Some r \<Rightarrow> state r) of
        Some s \<Rightarrow> Some s
      | None \<Rightarrow>
          (if task_mode task = Some ''skip'' \<or> task_mode task = Some ''todo''
           then task_mode task else None))"

definition task_duration :: "VitestTaskResult \<Rightarrow> int" where
  "task_duration task =
     (case (case task_result task of None \<Rightarrow> None | Some r \<Rightarrow> duration r) of
        Some d \<Rightarrow> max 0 d
      | None \<Rightarrow> 0)"

definition task_display_name :: "VitestTaskResult \<Rightarrow> string" where
  "task_display_name task =
     (case task_name task of
        Some n \<Rightarrow> if n \<noteq> [] \<and> length (trim n) > 0 then n else ''[unnamed]''
      | None \<Rightarrow> ''[unnamed]'')"

definition test_result :: "VitestTaskResult \<Rightarrow> string \<Rightarrow> TestRunResult" where
  "test_result task filePath =
     (let st = task_state task;
          durationMs = task_duration task;
          nm = task_display_name task;
          normalizedFile = (if filePath \<noteq> [] then filePath else ''[vitest]'')
      in if st = Some ''skip'' \<or> st = Some ''todo''
         then \<lparr>res_name = nm, res_file = normalizedFile, res_passed = True,
               res_message = None, res_durationMs = durationMs\<rparr>
         else
           (let passed = (st = Some ''pass'');
                errorMessage =
                  formatTaskErrors
                    (case task_result task of None \<Rightarrow> None | Some r \<Rightarrow> errors r)
            in \<lparr>res_name = nm, res_file = normalizedFile, res_passed = passed,
                 res_message =
                   (if passed then None
                    else (case errorMessage of
                            Some m \<Rightarrow> Some m
                          | None \<Rightarrow>
                              Some ''Vitest reported a failure without additional details.'')),
                 res_durationMs = durationMs\<rparr>))"

text \<open>
  Lines 301 to 330 for a task that is neither a suite nor a container: nothing is
  pushed unless the task is typed \<^verbatim>\<open>'test'\<close>.
\<close>

definition push_test :: "VitestTaskResult \<Rightarrow> string \<Rightarrow> TestRunResult list \<Rightarrow> TestRunResult list" where
  "push_test task filePath accumulator =
     (if task_type task \<noteq> Some ''test'' then accumulator
      else accumulator @ [test_result task filePath])"

text \<open>
  The loop of \<^verbatim>\<open>collectTaskResults\<close>. The accumulator is the array the source
  mutates; a recursive call returns it extended.
\<close>

function (sequential) collectTaskResults ::
  "VitestTaskResult option list \<Rightarrow> string \<Rightarrow> TestRunResult list \<Rightarrow> TestRunResult list" where
  "collectTaskResults [] filePath accumulator = accumulator"
| "collectTaskResults (None # rest) filePath accumulator =
     collectTaskResults rest filePath accumulator"
| "collectTaskResults (Some task # rest) filePath accumulator =
     (if task_type task = Some ''suite''
      then (case task_tasks task of
              Some children \<Rightarrow>
                collectTaskResults rest filePath (collectTaskResults children filePath accumulator)
            | None \<Rightarrow> collectTaskResults rest filePath accumulator)
      else (case task_tasks task of
              Some children \<Rightarrow>
                if length children > 0 \<and> task_type task \<noteq> Some ''test''
                then collectTaskResults rest filePath
                       (collectTaskResults children filePath accumulator)
                else collectTaskResults rest filePath (push_test task filePath accumulator)
            | None \<Rightarrow> collectTaskResults rest filePath (push_test task filePath accumulator)))"
  by pat_completeness auto

text \<open>The children of a task are smaller than the task: the walk terminates.\<close>

termination collectTaskResults
  apply (relation
      "measure (\<lambda>(tasks, filePath, accumulator). size_list (size_option size) tasks)")
      apply simp_all
  subgoal for task by (cases task) simp
  subgoal for task by (cases task) simp
  done

subsection \<open>\<^verbatim>\<open>appendUnhandledErrors\<close>\<close>

text \<open>\<^verbatim>\<open>requestedFiles[0] ?? '[vitest]'\<close>.\<close>

definition first_or_placeholder :: "string list \<Rightarrow> string" where
  "first_or_placeholder requestedFiles =
     (case requestedFiles of [] \<Rightarrow> ''[vitest]'' | f # _ \<Rightarrow> f)"

fun push_unhandled :: "js_unknown list \<Rightarrow> string \<Rightarrow> TestRunResult list \<Rightarrow> TestRunResult list" where
  "push_unhandled [] targetFile results = results"
| "push_unhandled (error # rest) targetFile results =
     push_unhandled rest targetFile
       (results @ [\<lparr>res_name = ''[unhandled]'', res_file = targetFile, res_passed = False,
                    res_message = Some (formatUnhandledError error), res_durationMs = 0\<rparr>])"

definition appendUnhandledErrors ::
  "js_unknown list option \<Rightarrow> string list \<Rightarrow> TestRunResult list \<Rightarrow> TestRunResult list" where
  "appendUnhandledErrors errs requestedFiles results =
     (case errs of
        None \<Rightarrow> results
      | Some es \<Rightarrow>
          if length es = 0 then results
          else push_unhandled es (first_or_placeholder requestedFiles) results)"

subsection \<open>Summary Builder: \<^verbatim>\<open>buildSummaryFromVitest\<close>\<close>

text \<open>
  \<^verbatim>\<open>path.resolve\<close> of \<^verbatim>\<open>node:path\<close> is not code of this repository; it is the
  parameter \<open>path_resolve\<close>. A module's file is
  \<^verbatim>\<open>moduleResult.filepath ? path.resolve(moduleResult.filepath) : null\<close>, and an empty
  string is falsy.
\<close>

definition module_file :: "(string \<Rightarrow> string) \<Rightarrow> VitestModuleResult \<Rightarrow> string option" where
  "module_file path_resolve moduleResult =
     (case filepath moduleResult of
        None \<Rightarrow> None
      | Some p \<Rightarrow> if p \<noteq> [] then Some (path_resolve p) else None)"

text \<open>Truthiness of a \<^verbatim>\<open>string | null\<close>.\<close>

definition truthy :: "string option \<Rightarrow> bool" where
  "truthy s = (case s of None \<Rightarrow> False | Some t \<Rightarrow> t \<noteq> [])"

text \<open>
  The loop over the modules (lines 250 to 265). The state is the pair of the
  \<^verbatim>\<open>results\<close> array and \<^verbatim>\<open>moduleDuration\<close>.
\<close>

definition module_step ::
  "(string \<Rightarrow> string) \<Rightarrow> string set \<Rightarrow> string list \<Rightarrow> VitestModuleResult \<Rightarrow>
   TestRunResult list \<times> int \<Rightarrow> TestRunResult list \<times> int" where
  "module_step path_resolve requestedSet requestedFiles moduleResult st =
     (let results = fst st;
          moduleDuration = snd st;
          moduleFile = module_file path_resolve moduleResult
      in if card requestedSet > 0 \<and>
            (case moduleFile of None \<Rightarrow> False | Some f \<Rightarrow> f \<noteq> [] \<and> f \<notin> requestedSet)
         then (results, moduleDuration)
         else
           (let moduleDuration1 =
                  (if truthy moduleFile
                   then (case (case module_result moduleResult of
                                 None \<Rightarrow> None
                               | Some r \<Rightarrow> module_duration r) of
                           Some d \<Rightarrow> moduleDuration + max 0 d
                         | None \<Rightarrow> moduleDuration)
                   else moduleDuration);
                results1 =
                  (case module_tasks moduleResult of
                     Some tasks \<Rightarrow>
                       (let targetFile =
                              (case moduleFile of
                                 Some f \<Rightarrow> f
                               | None \<Rightarrow> first_or_placeholder requestedFiles)
                        in collectTaskResults tasks targetFile results)
                   | None \<Rightarrow> results)
            in (results1, moduleDuration1)))"

fun modules_loop ::
  "(string \<Rightarrow> string) \<Rightarrow> string set \<Rightarrow> string list \<Rightarrow> VitestModuleResult list \<Rightarrow>
   TestRunResult list \<times> int \<Rightarrow> TestRunResult list \<times> int" where
  "modules_loop path_resolve requestedSet requestedFiles [] st = st"
| "modules_loop path_resolve requestedSet requestedFiles (moduleResult # rest) st =
     modules_loop path_resolve requestedSet requestedFiles rest
       (module_step path_resolve requestedSet requestedFiles moduleResult st)"

definition buildSummaryFromVitest ::
  "(string \<Rightarrow> string) \<Rightarrow> VitestModuleResult list option \<Rightarrow> js_unknown list option \<Rightarrow>
   string list \<Rightarrow> RunnerSummary" where
  "buildSummaryFromVitest path_resolve modules unhandledErrors requestedFiles =
     (let requestedSet = set (map path_resolve requestedFiles);
          st = modules_loop path_resolve requestedSet requestedFiles
                 (case modules of None \<Rightarrow> [] | Some ms \<Rightarrow> ms) ([], 0);
          moduleDuration = snd st;
          results = appendUnhandledErrors unhandledErrors requestedFiles (fst st);
          passed = int (length (filter res_passed results));
          failed = int (length results) - passed;
          durationFromTests =
            foldl (\<lambda>total result. total + max 0 (res_durationMs result)) 0 results;
          durationMs = (if durationFromTests > 0 then durationFromTests else moduleDuration)
      in \<lparr>summary_passed = passed, summary_failed = failed,
           summary_total = int (length results), summary_durationMs = durationMs,
           summary_results = results\<rparr>)"

subsection \<open>\<^verbatim>\<open>createEmptySummary\<close>, \<^verbatim>\<open>createFailureSummary\<close>, \<^verbatim>\<open>formatFailureMessage\<close>\<close>

definition createEmptySummary :: RunnerSummary where
  "createEmptySummary =
     \<lparr>summary_passed = 0, summary_failed = 0, summary_total = 0, summary_durationMs = 0,
      summary_results = []\<rparr>"

definition createFailureSummary :: "string list \<Rightarrow> string \<Rightarrow> RunnerSummary" where
  "createFailureSummary files msg =
     (let normalizedMessage = trim msg;
          results0 =
            map (\<lambda>f. \<lparr>res_name = ''[vitest provider]'', res_file = f, res_passed = False,
                       res_message = Some normalizedMessage, res_durationMs = 0\<rparr>) files;
          results =
            (if length results0 = 0
             then results0 @
                    [\<lparr>res_name = ''[vitest provider]'', res_file = ''[vitest]'',
                      res_passed = False, res_message = Some normalizedMessage,
                      res_durationMs = 0\<rparr>]
             else results0)
      in \<lparr>summary_passed = 0, summary_failed = int (length results),
           summary_total = int (length results), summary_durationMs = 0,
           summary_results = results\<rparr>)"

definition formatFailureMessage :: "string \<Rightarrow> string \<Rightarrow> string \<Rightarrow> string" where
  "formatFailureMessage reason stdout stderr =
     (let sections0 = [trim reason];
          trimmedStdout = trim stdout;
          trimmedStderr = trim stderr;
          sections1 =
            (if length trimmedStdout > 0
             then sections0 @ [''[stdout]'' @ [CHR 0x0A] @ trimmedStdout] else sections0);
          sections2 =
            (if length trimmedStderr > 0
             then sections1 @ [''[stderr]'' @ [CHR 0x0A] @ trimmedStderr] else sections1)
      in js_join blank_line sections2)"

subsection \<open>Invocation Adapter: \<^verbatim>\<open>runVitest\<close>\<close>

text \<open>
  \<^verbatim>\<open>process.env\<close> is a map from variable names to values. The engine is outside the
  repository: a call of \<^verbatim>\<open>startVitest\<close> sees the environment, the mode, the filters
  and the options, and what it does is the record \<open>StartVitestResult\<close>: the
  environment it leaves behind, the chunks it wrote to the two capture streams, what
  \<^verbatim>\<open>Date.now()\<close> reads after it, and either the value it rejected with or the
  context it resolved to.
\<close>

type_synonym process_env = "string \<rightharpoonup> string"

record VitestOptions =
  opt_run :: bool
  opt_watch :: bool
  opt_passWithNoTests :: bool
  opt_reporters :: "string list"
  opt_silent :: bool

text \<open>
  The context: what \<^verbatim>\<open>ctx.state.getFiles()\<close> returns, and what
  \<^verbatim>\<open>ctx.state.getUnhandledErrors()\<close> returns when that method exists (\<open>None\<close>
  when \<^verbatim>\<open>getUnhandledErrors\<close> is not a function).
\<close>

record VitestContext =
  getFiles :: "VitestModuleResult list option"
  getUnhandledErrors :: "js_unknown list option option"

record StartVitestResult =
  env_after :: process_env
  stdout_chunks :: "string list"
  stderr_chunks :: "string list"
  now_after :: int
  outcome :: "js_unknown + VitestContext"

type_synonym StartVitestFn =
  "process_env \<Rightarrow> string \<Rightarrow> string list \<Rightarrow> VitestOptions \<Rightarrow> StartVitestResult"

text \<open>
  The platform around the provider: \<^verbatim>\<open>require.resolve('vitest/package.json')\<close>
  (\<open>Inl\<close> when it throws), the dynamic import of \<^verbatim>\<open>dist/node.js\<close> beside that
  manifest with the \<^verbatim>\<open>startVitest\<close> export read off the module (\<open>Inl\<close> when
  anything in that \<^verbatim>\<open>try\<close> block throws, \<open>Inr None\<close> when the export is not a
  function), \<^verbatim>\<open>path.resolve\<close>, \<^verbatim>\<open>path.relative(process.cwd(), _)\<close>, and
  \<^verbatim>\<open>Date.now()\<close> read before the engine is called.
\<close>

record host =
  host_require_resolve :: "js_unknown + string"
  host_import_startVitest :: "string \<Rightarrow> js_unknown + StartVitestFn option"
  host_path_resolve :: "string \<Rightarrow> string"
  host_path_relative :: "string \<Rightarrow> string"
  host_now :: int

definition resolveVitestPackage :: "host \<Rightarrow> string option" where
  "resolveVitestPackage h =
     (case host_require_resolve h of Inl _ \<Rightarrow> None | Inr p \<Rightarrow> Some p)"

definition normalizeCliFilter :: "host \<Rightarrow> string \<Rightarrow> string" where
  "normalizeCliFilter h f =
     (let relative = host_path_relative h f
      in if relative \<noteq> [] \<and> \<not> prefix ''..'' relative then relative else f)"

text \<open>The three failure messages that do not depend on captured output.\<close>

definition not_installed_message :: string where
  "not_installed_message =
     ''[webstir-io/vitest-testing] Vitest runtime not installed. Install \"vitest\" in the active workspace or ensure it can be resolved.''"

text \<open>\<^verbatim>\<open>error instanceof Error ? error.message : String(error)\<close> (line 137).\<close>

definition load_failure_reason :: "js_unknown \<Rightarrow> string" where
  "load_failure_reason error =
     (case error of
        JsError m _ \<Rightarrow> m
      | JsString s \<Rightarrow> s
      | JsOther _ coerced \<Rightarrow> coerced)"

definition load_failure_message :: "js_unknown \<Rightarrow> string" where
  "load_failure_message error =
     (let reason = load_failure_reason error
      in ''[webstir-io/vitest-testing] Unable to load the Vitest runtime: '' @ reason)"

definition no_export_message :: string where
  "no_export_message =
     ''[webstir-io/vitest-testing] Unable to locate the Vitest startVitest export.''"

definition execution_failure_reason :: "js_unknown \<Rightarrow> string" where
  "execution_failure_reason error =
     (case error of
        JsError m _ \<Rightarrow> ''Vitest execution failed: '' @ m
      | _ \<Rightarrow> ''Vitest execution failed.'')"

text \<open>Lines 169 to 171: the three markers as the engine sees them.\<close>

definition set_markers :: "process_env \<Rightarrow> process_env" where
  "set_markers env =
     (let originalSpecEnv = env ''WEBSTIR_TESTING_PROVIDER_SPEC''
      in env(''WEBSTIR_TEST_PROVIDER'' \<mapsto> ''vitest'',
             ''WEBSTIR_TESTING_PROVIDER'' \<mapsto> ''@webstir-io/vitest-testing'',
             ''WEBSTIR_TESTING_PROVIDER_SPEC'' \<mapsto>
               (case originalSpecEnv of Some v \<Rightarrow> v | None \<Rightarrow> [])))"

text \<open>
  One arm of the \<^verbatim>\<open>finally\<close> block: assign the saved value back when it was a
  string, delete the variable otherwise.
\<close>

definition restore_marker :: "string \<Rightarrow> string option \<Rightarrow> process_env \<Rightarrow> process_env" where
  "restore_marker key original env =
     (case original of Some v \<Rightarrow> env(key \<mapsto> v) | None \<Rightarrow> env(key := None))"

text \<open>
  Lines 149 to 150 and 176 to 191: the call of the engine, with the markers set, the
  mode \<^verbatim>\<open>'test'\<close>, one filter for each resolved file, and the options of a single
  silent run.
\<close>

definition startVitest_call ::
  "host \<Rightarrow> StartVitestFn \<Rightarrow> process_env \<Rightarrow> string list \<Rightarrow> StartVitestResult" where
  "startVitest_call h startVitest env files =
     (let normalizedFiles = map (host_path_resolve h) files;
          filters = map (normalizeCliFilter h) normalizedFiles
      in startVitest (set_markers env) ''test'' filters
           \<lparr>opt_run = True, opt_watch = False, opt_passWithNoTests = True,
            opt_reporters = [], opt_silent = True\<rparr>)"

text \<open>
  Lines 149 to 230: the engine call inside \<^verbatim>\<open>try\<close>, \<^verbatim>\<open>catch\<close> and
  \<^verbatim>\<open>finally\<close>. \<open>attempt\<close> is the \<^verbatim>\<open>try\<close> block (\<open>Inl\<close> when the awaited call
  rejects), \<open>caught\<close> is what the \<^verbatim>\<open>catch\<close> handler makes of it, and the
  \<^verbatim>\<open>finally\<close> block runs on the environment the engine left behind.
\<close>

definition invoke_engine ::
  "host \<Rightarrow> StartVitestFn \<Rightarrow> process_env \<Rightarrow> string list \<Rightarrow>
   process_env \<times> (js_unknown + RunnerSummary)" where
  "invoke_engine h startVitest env files =
     (let normalizedFiles = map (host_path_resolve h) files;
          originalProviderEnv = env ''WEBSTIR_TEST_PROVIDER'';
          originalTestingProviderEnv = env ''WEBSTIR_TESTING_PROVIDER'';
          originalSpecEnv = env ''WEBSTIR_TESTING_PROVIDER_SPEC'';
          startTime = host_now h;
          r = startVitest_call h startVitest env files;
          stdout = concat (stdout_chunks r);
          stderr = concat (stderr_chunks r);
          attempt =
            (case outcome r of
               Inl error \<Rightarrow> Inl error
             | Inr ctx \<Rightarrow>
                 (let summary =
                        buildSummaryFromVitest (host_path_resolve h) (getFiles ctx)
                          (case getUnhandledErrors ctx of
                             Some es \<Rightarrow> es
                           | None \<Rightarrow> Some [])
                          normalizedFiles;
                      durationMs =
                        (if summary_durationMs summary > 0 then summary_durationMs summary
                         else now_after r - startTime)
                  in Inr (if summary_durationMs summary > 0 then summary
                          else summary\<lparr>summary_durationMs := durationMs\<rparr>)));
          caught =
            (case attempt of
               Inl error \<Rightarrow>
                 Inr (createFailureSummary files
                        (formatFailureMessage (execution_failure_reason error) stdout stderr))
             | Inr summary \<Rightarrow> Inr summary);
          env2 =
            restore_marker ''WEBSTIR_TESTING_PROVIDER_SPEC'' originalSpecEnv
              (restore_marker ''WEBSTIR_TESTING_PROVIDER'' originalTestingProviderEnv
                 (restore_marker ''WEBSTIR_TEST_PROVIDER'' originalProviderEnv (env_after r)))
      in (env2, caught))"

definition runVitest ::
  "host \<Rightarrow> process_env \<Rightarrow> string list \<Rightarrow> process_env \<times> (js_unknown + RunnerSummary)" where
  "runVitest h env files =
     (case resolveVitestPackage h of
        None \<Rightarrow> (env, Inr (createFailureSummary files not_installed_message))
      | Some vitestPackage \<Rightarrow>
          if vitestPackage = []
          then (env, Inr (createFailureSummary files not_installed_message))
          else
            (case host_import_startVitest h vitestPackage of
               Inl error \<Rightarrow> (env, Inr (createFailureSummary files (load_failure_message error)))
             | Inr None \<Rightarrow> (env, Inr (createFailureSummary files no_export_message))
             | Inr (Some startVitest) \<Rightarrow> invoke_engine h startVitest env files))"

subsection \<open>Provider Facade: \<^verbatim>\<open>runTests\<close>\<close>

definition runTests ::
  "host \<Rightarrow> process_env \<Rightarrow> string list \<Rightarrow> process_env \<times> (js_unknown + RunnerSummary)" where
  "runTests h env files =
     (if length files = 0 then (env, Inr createEmptySummary) else runVitest h env files)"

section \<open>Specifications and examples\<close>

text \<open>
  The definitions that the theorems compare the code with, written from the words of
  the specification, and the concrete inputs on which the theorems are run.
\<close>

subsection \<open>Consistent counts\<close>

text \<open>
  The counts of a summary are consistent when \<open>total\<close> is \<open>passed + failed\<close> and the
  two counts are the sizes of the two parts of \<open>results\<close>.
\<close>

definition counts_consistent :: "RunnerSummary \<Rightarrow> bool" where
  "counts_consistent s =
     (summary_total s = summary_passed s + summary_failed s \<and>
      summary_passed s = int (length (filter res_passed (summary_results s))) \<and>
      summary_failed s = int (length (filter (\<lambda>r. \<not> res_passed r) (summary_results s))))"

subsection \<open>The tasks of a tree and their outcomes\<close>

text \<open>
  Two listings of the nodes of a task tree, both depth first and in the order of the
  arrays, null entries left out: \<open>tree_tasks\<close> lists every task of the tree;
  \<open>tasks_outside_tests\<close> lists every task that is not nested inside a task typed
  \<^verbatim>\<open>'test'\<close>, that is, it does not descend below a test.
\<close>

function (sequential) tree_tasks :: "VitestTaskResult option list \<Rightarrow> VitestTaskResult list" where
  "tree_tasks [] = []"
| "tree_tasks (None # rest) = tree_tasks rest"
| "tree_tasks (Some task # rest) =
     task # (case task_tasks task of Some children \<Rightarrow> tree_tasks children | None \<Rightarrow> [])
       @ tree_tasks rest"
  by pat_completeness auto

termination
  apply (relation "measure (size_list (size_option size))")
     apply simp_all
  subgoal for task by (cases task) simp
  done

definition is_test :: "VitestTaskResult \<Rightarrow> bool" where
  "is_test task = (task_type task = Some ''test'')"

function (sequential) tasks_outside_tests ::
  "VitestTaskResult option list \<Rightarrow> VitestTaskResult list" where
  "tasks_outside_tests [] = []"
| "tasks_outside_tests (None # rest) = tasks_outside_tests rest"
| "tasks_outside_tests (Some task # rest) =
     task #
       (if is_test task then []
        else (case task_tasks task of
                Some children \<Rightarrow> tasks_outside_tests children
              | None \<Rightarrow> []))
       @ tasks_outside_tests rest"
  by pat_completeness auto

termination
  apply (relation "measure (size_list (size_option size))")
     apply simp_all
  subgoal for task by (cases task) simp
  done

text \<open>One outcome for each test of a list of tasks, in the order of the list.\<close>

definition outcomes :: "string \<Rightarrow> VitestTaskResult list \<Rightarrow> TestRunResult list" where
  "outcomes filePath ts = map (\<lambda>task. test_result task filePath) (filter is_test ts)"

text \<open>The tests of a tree are leaves when no task typed \<^verbatim>\<open>'test'\<close> has a child.\<close>

definition childless :: "VitestTaskResult \<Rightarrow> bool" where
  "childless task = (case task_tasks task of None \<Rightarrow> True | Some children \<Rightarrow> children = [])"

definition tests_are_leaves :: "VitestTaskResult option list \<Rightarrow> bool" where
  "tests_are_leaves tasks = list_all (\<lambda>task. is_test task \<longrightarrow> childless task) (tree_tasks tasks)"

text \<open>
  Example trees: a suite around a passing test, a failing test reporting the same
  message twice around a null error, a test skipped by its mode, and a test that has
  a test as a child.
\<close>

definition ex_inner :: VitestTaskResult where
  "ex_inner = VitestTaskResult (Some ''test'') (Some ''inner'') None None
     (Some \<lparr>state = Some ''pass'', duration = Some 5, errors = None\<rparr>)"

definition ex_outer :: VitestTaskResult where
  "ex_outer =
     VitestTaskResult (Some ''suite'') (Some ''outer'') None (Some [Some ex_inner]) None"

definition ex_skipped :: VitestTaskResult where
  "ex_skipped = VitestTaskResult (Some ''test'') (Some ''later'') (Some ''skip'') None None"

definition ex_boom :: VitestTaskError where
  "ex_boom = \<lparr>error_message = Some '' boom '', error_stack = None, error_stacks = None\<rparr>"

definition ex_failing :: VitestTaskResult where
  "ex_failing = VitestTaskResult (Some ''test'') (Some ''broken'') None None
     (Some \<lparr>state = Some ''fail'', duration = Some (- 3),
            errors = Some [Some ex_boom, None, Some ex_boom]\<rparr>)"

definition ex_tasks :: "VitestTaskResult option list" where
  "ex_tasks = [Some ex_outer, None, Some ex_failing, Some ex_skipped]"

definition ex_test_in_test :: VitestTaskResult where
  "ex_test_in_test =
     VitestTaskResult (Some ''test'') (Some ''a'') None (Some [Some ex_inner]) None"

subsection \<open>The reconciler in the words of the specification\<close>

text \<open>
  The reconciler as the specification words it. The candidate of a stack entry is its
  trimmed message when that is not blank, else its trimmed stack text when that is not
  blank. The candidates of an error are its trimmed message when not blank, followed by
  the candidates of the entries of \<open>stacks\<close> when that sequence is present, and by the
  trimmed stack text of the error itself when it is not.
\<close>

definition stack_candidate :: "VitestStack \<Rightarrow> string list" where
  "stack_candidate stack =
     (case nonblank_trim (stack_message stack) of
        Some m \<Rightarrow> [m]
      | None \<Rightarrow> (case nonblank_trim (stack_stack stack) of Some t \<Rightarrow> [t] | None \<Rightarrow> []))"

definition error_candidates :: "VitestTaskError \<Rightarrow> string list" where
  "error_candidates error =
     (case nonblank_trim (error_message error) of Some m \<Rightarrow> [m] | None \<Rightarrow> []) @
     (case error_stacks error of
        Some stacks \<Rightarrow>
          concat (map (\<lambda>entry. case entry of None \<Rightarrow> [] | Some stack \<Rightarrow> stack_candidate stack)
                    stacks)
      | None \<Rightarrow> (case nonblank_trim (error_stack error) of Some t \<Rightarrow> [t] | None \<Rightarrow> []))"

definition candidates :: "VitestTaskError option list \<Rightarrow> string list" where
  "candidates es =
     concat (map (\<lambda>entry. case entry of None \<Rightarrow> [] | Some error \<Rightarrow> error_candidates error) es)"

text \<open>
  Deduplication that keeps the first occurrence of every value, in order: an element
  is kept when it was not seen before.
\<close>

fun unseen :: "'a list \<Rightarrow> 'a list \<Rightarrow> 'a list" where
  "unseen seen [] = []"
| "unseen seen (x # xs) =
     (if x \<in> set seen then unseen seen xs else x # unseen (seen @ [x]) xs)"

definition first_occurrences :: "'a list \<Rightarrow> 'a list" where
  "first_occurrences xs = unseen [] xs"

definition reconcile :: "VitestTaskError option list option \<Rightarrow> string option" where
  "reconcile errs =
     (case errs of
        None \<Rightarrow> None
      | Some es \<Rightarrow>
          (let unique = first_occurrences (candidates es)
           in if unique = [] then None else Some (js_join blank_line unique)))"

text \<open>
  An error whose first stack entry has a blank message and a stack text, around a null
  entry, and whose own stack text is not read because \<open>stacks\<close> is present.
\<close>

definition ex_assertion :: VitestTaskError where
  "ex_assertion =
     \<lparr>error_message = Some ''expected 1'', error_stack = Some ''not read'',
      error_stacks =
        Some [Some \<lparr>stack_message = Some ''  '', stack_stack = Some '' at f ''\<rparr>, None,
              Some \<lparr>stack_message = Some ''expected 1'', stack_stack = None\<rparr>]\<rparr>"

subsection \<open>Dropped modules and the duration pool\<close>

text \<open>
  A module is dropped when the list of requested files is not empty, the module has a
  (non-empty) file path, and the resolved path is not among the resolved requested
  files.
\<close>

definition module_dropped :: "(string \<Rightarrow> string) \<Rightarrow> string list \<Rightarrow> VitestModuleResult \<Rightarrow> bool" where
  "module_dropped path_resolve requestedFiles moduleResult =
     (requestedFiles \<noteq> [] \<and>
      (case filepath moduleResult of
         None \<Rightarrow> False
       | Some p \<Rightarrow> p \<noteq> [] \<and> path_resolve p \<notin> set (map path_resolve requestedFiles)))"

text \<open>The duration a module reports, floored at 0, and 0 when it reports none.\<close>

definition reported_duration :: "VitestModuleResult \<Rightarrow> int" where
  "reported_duration moduleResult =
     (case module_result moduleResult of
        None \<Rightarrow> 0
      | Some r \<Rightarrow> (case module_duration r of None \<Rightarrow> 0 | Some d \<Rightarrow> max 0 d))"

text \<open>What a module adds to the pool: its reported duration when it has a file path.\<close>

definition pool_contribution :: "VitestModuleResult \<Rightarrow> int" where
  "pool_contribution moduleResult =
     (case filepath moduleResult of
        None \<Rightarrow> 0
      | Some p \<Rightarrow> if p \<noteq> [] then reported_duration moduleResult else 0)"

text \<open>The outcomes of the tasks of a module.\<close>

definition module_outcomes ::
  "(string \<Rightarrow> string) \<Rightarrow> string list \<Rightarrow> VitestModuleResult \<Rightarrow> TestRunResult list" where
  "module_outcomes path_resolve requestedFiles moduleResult =
     (case module_tasks moduleResult of
        None \<Rightarrow> []
      | Some tasks \<Rightarrow>
          collectTaskResults tasks
            (case module_file path_resolve moduleResult of
               Some f \<Rightarrow> f
             | None \<Rightarrow> first_or_placeholder requestedFiles) [])"

definition kept_modules ::
  "(string \<Rightarrow> string) \<Rightarrow> string list \<Rightarrow> VitestModuleResult list \<Rightarrow> VitestModuleResult list" where
  "kept_modules path_resolve requestedFiles modules =
     filter (\<lambda>m. \<not> module_dropped path_resolve requestedFiles m) modules"

text \<open>
  Examples. A resolver for the working directory \<^verbatim>\<open>/w\<close>: an absolute path is kept, a
  relative one is put below \<^verbatim>\<open>/w\<close>. Three modules of the file \<^verbatim>\<open>/w/a.test.ts\<close>
  (one with the example tasks, one with an empty task list, one whose tests all report
  the duration 0), a module of another file, and a module without a file path.
\<close>

definition ex_resolve :: "string \<Rightarrow> string" where
  "ex_resolve p =
     (case p of [] \<Rightarrow> ''/w'' | c # _ \<Rightarrow> if c = CHR ''/'' then p else ''/w/'' @ p)"

definition ex_module_a :: VitestModuleResult where
  "ex_module_a =
     \<lparr>filepath = Some ''/w/a.test.ts'',
      module_result = Some \<lparr>module_state = Some ''fail'', module_duration = Some 120\<rparr>,
      module_tasks = Some ex_tasks\<rparr>"

definition ex_module_b :: VitestModuleResult where
  "ex_module_b =
     \<lparr>filepath = Some ''/w/b.test.ts'',
      module_result = Some \<lparr>module_state = Some ''pass'', module_duration = Some 50\<rparr>,
      module_tasks = Some [Some ex_inner]\<rparr>"

definition ex_module_empty :: VitestModuleResult where
  "ex_module_empty =
     \<lparr>filepath = Some ''a.test.ts'',
      module_result = Some \<lparr>module_state = Some ''pass'', module_duration = Some 30\<rparr>,
      module_tasks = Some []\<rparr>"

definition ex_module_zero :: VitestModuleResult where
  "ex_module_zero =
     \<lparr>filepath = Some ''/w/a.test.ts'',
      module_result = Some \<lparr>module_state = Some ''fail'', module_duration = Some 120\<rparr>,
      module_tasks = Some [Some ex_failing, Some ex_skipped]\<rparr>"

definition ex_module_nofile :: VitestModuleResult where
  "ex_module_nofile =
     \<lparr>filepath = None,
      module_result = Some \<lparr>module_state = Some ''pass'', module_duration = Some 120\<rparr>,
      module_tasks = Some []\<rparr>"

subsection \<open>Unhandled results, the rollup rule and example platforms\<close>

text \<open>
  The two components of the state after the loop over the modules: the flattened
  results and the pool of module durations.
\<close>

definition flattened_results ::
  "(string \<Rightarrow> string) \<Rightarrow> VitestModuleResult list option \<Rightarrow> string list \<Rightarrow> TestRunResult list" where
  "flattened_results path_resolve modules requestedFiles =
     fst (modules_loop path_resolve (set (map path_resolve requestedFiles)) requestedFiles
            (case modules of None \<Rightarrow> [] | Some ms \<Rightarrow> ms) ([], 0))"

definition module_pool ::
  "(string \<Rightarrow> string) \<Rightarrow> VitestModuleResult list option \<Rightarrow> string list \<Rightarrow> int" where
  "module_pool path_resolve modules requestedFiles =
     snd (modules_loop path_resolve (set (map path_resolve requestedFiles)) requestedFiles
            (case modules of None \<Rightarrow> [] | Some ms \<Rightarrow> ms) ([], 0))"

text \<open>The synthetic result of one unhandled error.\<close>

definition unhandled_result :: "string list \<Rightarrow> js_unknown \<Rightarrow> TestRunResult" where
  "unhandled_result requestedFiles error =
     \<lparr>res_name = ''[unhandled]'', res_file = first_or_placeholder requestedFiles,
      res_passed = False, res_message = Some (formatUnhandledError error),
      res_durationMs = 0\<rparr>"

text \<open>
  The rollup rule: the sum of the per-result durations, each floored at 0, when
  that is positive; else the pool when that is positive; else the elapsed time.
\<close>

definition duration_rollup :: "TestRunResult list \<Rightarrow> int \<Rightarrow> int \<Rightarrow> int" where
  "duration_rollup results pool elapsed =
     (let fromTests = sum_list (map (\<lambda>r. max 0 (res_durationMs r)) results)
      in if fromTests > 0 then fromTests else if pool > 0 then pool else elapsed)"

text \<open>
  The engine is loaded when the package manifest resolves to a non-empty path and
  the import gives a callable \<^verbatim>\<open>startVitest\<close>; what the context reports as
  unhandled errors is the empty list when it has no such method.
\<close>

definition engine_loaded :: "host \<Rightarrow> StartVitestFn \<Rightarrow> bool" where
  "engine_loaded h sv =
     (case host_require_resolve h of
        Inl _ \<Rightarrow> False
      | Inr p \<Rightarrow> p \<noteq> [] \<and> host_import_startVitest h p = Inr (Some sv))"

definition context_unhandled :: "VitestContext \<Rightarrow> js_unknown list option" where
  "context_unhandled ctx = (case getUnhandledErrors ctx of Some es \<Rightarrow> es | None \<Rightarrow> Some [])"

text \<open>
  Example platforms. The working directory is \<^verbatim>\<open>/w\<close>; the clock reads 1000 before
  the call and 1200 after it; the engine writes to both streams, changes the
  environment, and then rejects or resolves as its argument says.
\<close>

definition ex_relative :: "string \<Rightarrow> string" where
  "ex_relative f = (if take 3 f = ''/w/'' then drop 3 f else ''../'' @ f)"

definition ex_engine :: "js_unknown + VitestContext \<Rightarrow> StartVitestFn" where
  "ex_engine result env mode filters options =
     \<lparr>env_after = env(''VITEST'' \<mapsto> ''true'', ''WEBSTIR_TEST_PROVIDER'' \<mapsto> ''overwritten''),
      stdout_chunks = ['' RUN '', ''v3 ''],
      stderr_chunks = [''warn'', [CHR 0x0A]],
      now_after = 1200,
      outcome = result\<rparr>"

definition ex_host :: "StartVitestFn \<Rightarrow> host" where
  "ex_host sv =
     \<lparr>host_require_resolve = Inr ''/w/node_modules/vitest/package.json'',
      host_import_startVitest = (\<lambda>p. Inr (Some sv)),
      host_path_resolve = ex_resolve,
      host_path_relative = ex_relative,
      host_now = 1000\<rparr>"

definition ex_env :: process_env where
  "ex_env = [''WEBSTIR_TEST_PROVIDER'' \<mapsto> ''node'', ''HOME'' \<mapsto> ''/root'']"

text \<open>
  A context with two passing tests and one unhandled error, and a context whose
  tests all report the duration 0 while the module reports 120.
\<close>

definition ex_context_unhandled :: VitestContext where
  "ex_context_unhandled =
     \<lparr>getFiles =
        Some [\<lparr>filepath = Some ''/w/a.test.ts'', module_result = None,
               module_tasks = Some [Some ex_inner, Some ex_outer]\<rparr>],
      getUnhandledErrors = Some (Some [JsError ''late rejection'' None])\<rparr>"

definition ex_context_zero :: VitestContext where
  "ex_context_zero = \<lparr>getFiles = Some [ex_module_zero], getUnhandledErrors = None\<rparr>"

subsection \<open>Failure summaries and failure messages\<close>

text \<open>
  The failure summary: one failing result for each file, in order, under the file as
  the caller wrote it; and exactly one, under the placeholder, when the list is empty.
\<close>

definition failing_result :: "string \<Rightarrow> string \<Rightarrow> TestRunResult" where
  "failing_result msg f =
     \<lparr>res_name = ''[vitest provider]'', res_file = f, res_passed = False,
      res_message = Some msg, res_durationMs = 0\<rparr>"

definition failure_summary :: "string list \<Rightarrow> string \<Rightarrow> RunnerSummary" where
  "failure_summary files msg =
     (let results =
            (if files = [] then [failing_result msg ''[vitest]'']
             else map (failing_result msg) files)
      in \<lparr>summary_passed = 0, summary_failed = int (length results),
           summary_total = int (length results), summary_durationMs = 0,
           summary_results = results\<rparr>)"

text \<open>
  The message of an execution failure: the trimmed reason, then a section for each
  captured stream whose trimmed text is not empty, each after a blank line.
\<close>

definition output_section :: "string \<Rightarrow> string \<Rightarrow> string" where
  "output_section label captured =
     (if trim captured = [] then [] else blank_line @ label @ [CHR 0x0A] @ trim captured)"

definition execution_failure_message :: "js_unknown \<Rightarrow> string \<Rightarrow> string \<Rightarrow> string" where
  "execution_failure_message error stdout stderr =
     trim (execution_failure_reason error) @
     output_section ''[stdout]'' stdout @ output_section ''[stderr]'' stderr"

text \<open>
  Example platforms on which the engine is not installed, fails to load, and has no
  \<^verbatim>\<open>startVitest\<close> export.
\<close>

definition ex_host_missing :: host where
  "ex_host_missing =
     (ex_host (ex_engine (Inr ex_context_zero)))
       \<lparr>host_require_resolve := Inl (JsError ''Cannot find module'' None)\<rparr>"

definition ex_host_broken :: host where
  "ex_host_broken =
     (ex_host (ex_engine (Inr ex_context_zero)))
       \<lparr>host_import_startVitest := (\<lambda>p. Inl (JsString ''bad syntax ''))\<rparr>"

definition ex_host_no_export :: host where
  "ex_host_no_export =
     (ex_host (ex_engine (Inr ex_context_zero)))
       \<lparr>host_import_startVitest := (\<lambda>p. Inr None)\<rparr>"

subsection \<open>Whether the engine returned a context\<close>

text \<open>
  The context the engine resolved to, when the package manifest resolved, the import
  gave a callable \<^verbatim>\<open>startVitest\<close> and the call did not reject; \<open>None\<close> when the
  engine is unavailable, failed to load, has no export or rejected.
\<close>

definition engine_returned :: "host \<Rightarrow> process_env \<Rightarrow> string list \<Rightarrow> VitestContext option" where
  "engine_returned h env files =
     (case host_require_resolve h of
        Inl _ \<Rightarrow> None
      | Inr p \<Rightarrow>
          if p = [] then None
          else (case host_import_startVitest h p of
                  Inl _ \<Rightarrow> None
                | Inr None \<Rightarrow> None
                | Inr (Some sv) \<Rightarrow>
                    (case outcome (startVitest_call h sv env files) of
                       Inl _ \<Rightarrow> None
                     | Inr ctx \<Rightarrow> Some ctx)))"

text \<open>On the success path every result is filed under a resolved path or the placeholder.\<close>

definition resolved_or_placeholder :: "(string \<Rightarrow> string) \<Rightarrow> TestRunResult \<Rightarrow> bool" where
  "resolved_or_placeholder path_resolve r =
     (res_file r \<in> range path_resolve \<or> res_file r = ''[vitest]'')"

subsection \<open>The provider markers\<close>

definition provider_markers :: "string set" where
  "provider_markers =
     {''WEBSTIR_TEST_PROVIDER'', ''WEBSTIR_TESTING_PROVIDER'', ''WEBSTIR_TESTING_PROVIDER_SPEC''}"

section \<open>The counts of a summary\<close>

lemma length_filter_not:
  "int (length (filter (\<lambda>r. \<not> P r) xs)) = int (length xs) - int (length (filter P xs))"
  using sum_length_filter_compl [of P xs] by simp

lemma createEmptySummary_counts: "counts_consistent createEmptySummary"
  by (simp add: counts_consistent_def createEmptySummary_def)

lemma createFailureSummary_counts: "counts_consistent (createFailureSummary files msg)"
  by (simp add: counts_consistent_def createFailureSummary_def Let_def o_def)

lemma buildSummaryFromVitest_counts:
  "counts_consistent (buildSummaryFromVitest pr modules unhandled requested)"
  by (simp add: counts_consistent_def buildSummaryFromVitest_def Let_def length_filter_not)

lemma counts_consistent_duration:
  "counts_consistent s \<Longrightarrow> counts_consistent (s\<lparr>summary_durationMs := d\<rparr>)"
  by (simp add: counts_consistent_def)

lemma invoke_engine_counts:
  "\<exists>s. snd (invoke_engine h sv env files) = Inr s \<and> counts_consistent s"
  by (simp add: invoke_engine_def Let_def createFailureSummary_counts
      buildSummaryFromVitest_counts counts_consistent_duration split: sum.splits)

lemma runVitest_counts:
  "\<exists>s. snd (runVitest h env files) = Inr s \<and> counts_consistent s"
  by (simp add: runVitest_def createFailureSummary_counts invoke_engine_counts
      split: option.splits sum.splits)

text \<open>
  C2. Whatever the platform, the engine, the environment and the file list are,
  \<open>runTests\<close> returns a summary (on the empty-list path, on every failure path and
  on the success path) in which \<open>total = passed + failed\<close>, \<open>passed\<close> is the number of
  results with \<open>passed = true\<close> and \<open>failed\<close> is the number of results with
  \<open>passed = false\<close>.
\<close>

theorem runTests_counts:
  "\<exists>s. snd (runTests h env files) = Inr s \<and>
       summary_total s = summary_passed s + summary_failed s \<and>
       summary_passed s = int (length (filter res_passed (summary_results s))) \<and>
       summary_failed s = int (length (filter (\<lambda>r. \<not> res_passed r) (summary_results s)))"
  using runVitest_counts [of h env files] createEmptySummary_counts
  by (simp add: runTests_def counts_consistent_def)

section \<open>The flattener emits one outcome per test reached\<close>

lemma outcomes_simps:
  "outcomes fp [] = []"
  "outcomes fp (t # ts) = (if is_test t then test_result t fp # outcomes fp ts else outcomes fp ts)"
  "outcomes fp (xs @ ys) = outcomes fp xs @ outcomes fp ys"
  by (simp_all add: outcomes_def)

lemma collectTaskResults_outcomes:
  "collectTaskResults tasks fp acc = acc @ outcomes fp (tasks_outside_tests tasks)"
proof (induction tasks arbitrary: acc rule: tasks_outside_tests.induct)
  case 1
  show ?case by (simp add: outcomes_simps)
next
  case (2 rest)
  then show ?case by simp
next
  case (3 task rest)
  show ?case
  proof (cases "is_test task")
    case True
    then show ?thesis
      using "3.IH"(2)
      by (simp add: outcomes_simps is_test_def push_test_def split: option.splits)
  next
    case False
    show ?thesis
    proof (cases "task_tasks task")
      case None
      with False show ?thesis
        using "3.IH"(2)
        by (simp add: outcomes_simps is_test_def push_test_def)
    next
      case (Some children)
      with False show ?thesis
        using "3.IH"(1) [OF False Some] "3.IH"(2)
        by (cases children) (simp_all add: outcomes_simps is_test_def push_test_def)
    qed
  qed
qed

lemma tests_are_leaves_outside:
  "tests_are_leaves tasks \<Longrightarrow> tasks_outside_tests tasks = tree_tasks tasks"
proof (induction tasks rule: tree_tasks.induct)
  case 1
  show ?case by simp
next
  case (2 rest)
  then show ?case by (simp add: tests_are_leaves_def)
next
  case (3 task rest)
  from "3.prems" have rest: "tests_are_leaves rest"
    by (simp add: tests_are_leaves_def)
  show ?case
  proof (cases "task_tasks task")
    case None
    with "3.IH"(2) rest show ?thesis by simp
  next
    case (Some children)
    from "3.prems" Some have "tests_are_leaves children"
      by (simp add: tests_are_leaves_def)
    with "3.IH"(1) [OF Some] have "tasks_outside_tests children = tree_tasks children" .
    moreover from "3.prems" Some have "is_test task \<Longrightarrow> children = []"
      by (simp add: tests_are_leaves_def childless_def)
    ultimately show ?thesis
      using "3.IH"(2) rest Some by auto
  qed
qed

text \<open>The cases of the walk, one task at a time.\<close>

lemma tasks_outside_tests_append:
  "tasks_outside_tests (xs @ ys) = tasks_outside_tests xs @ tasks_outside_tests ys"
  by (induction xs rule: tasks_outside_tests.induct) simp_all

lemma collectTaskResults_sequence:
  "collectTaskResults (xs @ ys) fp [] = collectTaskResults xs fp [] @ collectTaskResults ys fp []"
  by (simp add: collectTaskResults_outcomes [of _ fp "[]"] tasks_outside_tests_append
      outcomes_simps)

lemma collectTaskResults_null: "collectTaskResults [None] fp [] = []"
  by simp

lemma collectTaskResults_suite:
  "task_type task = Some ''suite'' \<Longrightarrow>
   collectTaskResults [Some task] fp [] =
     (case task_tasks task of Some children \<Rightarrow> collectTaskResults children fp [] | None \<Rightarrow> [])"
  by (simp split: option.splits)

lemma collectTaskResults_container:
  "task_type task \<noteq> Some ''suite'' \<Longrightarrow> task_type task \<noteq> Some ''test'' \<Longrightarrow>
   task_tasks task = Some children \<Longrightarrow> children \<noteq> [] \<Longrightarrow>
   collectTaskResults [Some task] fp [] = collectTaskResults children fp []"
  by simp

lemma collectTaskResults_test:
  "task_type task = Some ''test'' \<Longrightarrow> collectTaskResults [Some task] fp [] = [test_result task fp]"
  by (simp add: push_test_def split: option.splits)

lemma collectTaskResults_other:
  "task_type task \<noteq> Some ''suite'' \<Longrightarrow> task_type task \<noteq> Some ''test'' \<Longrightarrow> childless task \<Longrightarrow>
   collectTaskResults [Some task] fp [] = []"
  by (simp add: push_test_def childless_def split: option.splits)

lemmas ex_defs =
  ex_inner_def ex_outer_def ex_skipped_def ex_boom_def ex_failing_def ex_tasks_def
  ex_test_in_test_def

lemmas flatten_defs =
  push_test_def test_result_def task_state_def task_duration_def task_display_name_def
  formatTaskErrors_def push_error_def nonblank_trim_def trim_def js_whitespace_def
  filter_indexed_def blank_line_def Let_def is_test_def outcomes_def childless_def
  tests_are_leaves_def

text \<open>
  C4, amended. For every task tree, of any depth, and every accumulator, the flattener
  appends exactly one outcome for each task typed \<^verbatim>\<open>'test'\<close> that is not nested
  inside another task typed \<^verbatim>\<open>'test'\<close>, and nothing for any other node, in
  depth-first order: suites and other tasks with children are walked, null entries and
  childless tasks of other types contribute nothing, and the children of a test are
  not visited. When no test of the tree has children, this is one outcome for each
  task typed \<^verbatim>\<open>'test'\<close> of the whole tree.
\<close>

theorem collectTaskResults_one_outcome_per_test:
  "collectTaskResults tasks filePath accumulator =
     accumulator @ outcomes filePath (tasks_outside_tests tasks) \<and>
   (tests_are_leaves tasks \<longrightarrow>
      collectTaskResults tasks filePath accumulator =
        accumulator @ outcomes filePath (tree_tasks tasks))"
  using collectTaskResults_outcomes [of tasks filePath accumulator]
  by (simp add: tests_are_leaves_outside)

theorem collectTaskResults_one_outcome_per_test_witness:
  "tests_are_leaves ex_tasks \<and>
   collectTaskResults ex_tasks ''/w/a.test.ts'' [] = outcomes ''/w/a.test.ts'' (tree_tasks ex_tasks) \<and>
   collectTaskResults ex_tasks ''/w/a.test.ts'' [] =
     [\<lparr>res_name = ''inner'', res_file = ''/w/a.test.ts'', res_passed = True,
       res_message = None, res_durationMs = 5\<rparr>,
      \<lparr>res_name = ''broken'', res_file = ''/w/a.test.ts'', res_passed = False,
       res_message = Some ''boom'', res_durationMs = 0\<rparr>,
      \<lparr>res_name = ''later'', res_file = ''/w/a.test.ts'', res_passed = True,
       res_message = None, res_durationMs = 0\<rparr>]"
proof -
  have leaves: "tests_are_leaves ex_tasks"
    by (simp add: ex_defs flatten_defs)
  have "collectTaskResults ex_tasks ''/w/a.test.ts'' [] =
          [] @ outcomes ''/w/a.test.ts'' (tree_tasks ex_tasks)"
    using collectTaskResults_one_outcome_per_test [of ex_tasks "''/w/a.test.ts''" "[]"] leaves
    by blast
  moreover have "outcomes ''/w/a.test.ts'' (tree_tasks ex_tasks) =
     [\<lparr>res_name = ''inner'', res_file = ''/w/a.test.ts'', res_passed = True,
       res_message = None, res_durationMs = 5\<rparr>,
      \<lparr>res_name = ''broken'', res_file = ''/w/a.test.ts'', res_passed = False,
       res_message = Some ''boom'', res_durationMs = 0\<rparr>,
      \<lparr>res_name = ''later'', res_file = ''/w/a.test.ts'', res_passed = True,
       res_message = None, res_durationMs = 0\<rparr>]"
    by (simp add: ex_defs flatten_defs)
  ultimately show ?thesis using leaves by simp
qed

text \<open>
  C4 as stated fails on a test that has a test as a child: the tree has two tasks
  typed \<^verbatim>\<open>'test'\<close>, and the flattener emits one outcome.
\<close>

theorem collectTaskResults_test_in_test_counterexample:
  "collectTaskResults [Some ex_test_in_test] ''/w/a.test.ts'' [] \<noteq>
     outcomes ''/w/a.test.ts'' (tree_tasks [Some ex_test_in_test]) \<and>
   length (collectTaskResults [Some ex_test_in_test] ''/w/a.test.ts'' []) = 1 \<and>
   length (filter is_test (tree_tasks [Some ex_test_in_test])) = 2"
  by (simp add: ex_defs flatten_defs)

lemma test_result_message:
  "(res_message (test_result task fp) = None) = res_passed (test_result task fp)"
  by (simp add: test_result_def Let_def split: option.splits)

lemma test_result_skip_todo:
  "task_state task = Some ''skip'' \<or> task_state task = Some ''todo'' \<Longrightarrow>
   res_passed (test_result task fp) \<and> res_message (test_result task fp) = None"
  by (auto simp add: test_result_def Let_def)

text \<open>
  C3. Every result the flattener emits has a null message if and only if it passed;
  and a test whose state (\<^verbatim>\<open>result.state\<close>, or the mode when that is absent and the
  mode is \<^verbatim>\<open>'skip'\<close> or \<^verbatim>\<open>'todo'\<close>) is \<^verbatim>\<open>'skip'\<close> or \<^verbatim>\<open>'todo'\<close> is recorded as
  exactly one result with \<open>passed = true\<close> and a null message.
\<close>

theorem flattened_message_null_iff_passed:
  "(\<forall>r \<in> set (collectTaskResults tasks filePath []).
      (res_message r = None) = res_passed r) \<and>
   (is_test task \<and> (task_state task = Some ''skip'' \<or> task_state task = Some ''todo'') \<longrightarrow>
      (\<exists>r. collectTaskResults [Some task] filePath [] = [r] \<and>
           res_passed r \<and> res_message r = None))"
proof
  show "\<forall>r \<in> set (collectTaskResults tasks filePath []).
          (res_message r = None) = res_passed r"
    by (auto simp add: collectTaskResults_outcomes [of tasks filePath "[]"] outcomes_def
        test_result_message)
next
  show "is_test task \<and> (task_state task = Some ''skip'' \<or> task_state task = Some ''todo'') \<longrightarrow>
      (\<exists>r. collectTaskResults [Some task] filePath [] = [r] \<and>
           res_passed r \<and> res_message r = None)"
  proof
    assume h: "is_test task \<and>
      (task_state task = Some ''skip'' \<or> task_state task = Some ''todo'')"
    then have "collectTaskResults [Some task] filePath [] = [test_result task filePath]"
      using collectTaskResults_test [of task filePath] by (simp only: is_test_def)
    with test_result_skip_todo [of task filePath] h
    show "\<exists>r. collectTaskResults [Some task] filePath [] = [r] \<and>
           res_passed r \<and> res_message r = None"
      by blast
  qed
qed

theorem flattened_message_null_iff_passed_witness:
  "list_all (\<lambda>r. (res_message r = None) = res_passed r)
     (collectTaskResults ex_tasks ''/w/a.test.ts'' []) \<and>
   length (collectTaskResults ex_tasks ''/w/a.test.ts'' []) = 3 \<and>
   is_test ex_skipped \<and> task_result ex_skipped = None \<and> task_state ex_skipped = Some ''skip'' \<and>
   collectTaskResults [Some ex_skipped] ''/w/a.test.ts'' [] =
     [\<lparr>res_name = ''later'', res_file = ''/w/a.test.ts'', res_passed = True,
       res_message = None, res_durationMs = 0\<rparr>]"
proof -
  have hyp: "is_test ex_skipped \<and>
      (task_state ex_skipped = Some ''skip'' \<or> task_state ex_skipped = Some ''todo'')"
    by (simp add: ex_defs flatten_defs)
  have len: "length (collectTaskResults ex_tasks ''/w/a.test.ts'' []) = 3"
    by (simp add: ex_defs flatten_defs)
  have val: "collectTaskResults [Some ex_skipped] ''/w/a.test.ts'' [] =
     [\<lparr>res_name = ''later'', res_file = ''/w/a.test.ts'', res_passed = True,
       res_message = None, res_durationMs = 0\<rparr>]"
    by (simp add: ex_defs flatten_defs)
  have st: "task_result ex_skipped = None \<and> task_state ex_skipped = Some ''skip''"
    by (simp add: ex_defs flatten_defs)
  show ?thesis
    using flattened_message_null_iff_passed [of ex_tasks "''/w/a.test.ts''" ex_skipped] hyp len val st
    by (simp add: list_all_iff)
qed

section \<open>The reconciler collects, deduplicates and joins\<close>

lemma push_stacks_eq:
  "push_stacks stacks messages =
     messages @ concat (map (\<lambda>entry. case entry of None \<Rightarrow> [] | Some stack \<Rightarrow> stack_candidate stack) stacks)"
  by (induction stacks messages rule: push_stacks.induct)
     (simp_all add: stack_candidate_def split: option.splits)

lemma push_error_eq: "push_error error messages = messages @ error_candidates error"
  by (simp add: push_error_def error_candidates_def push_stacks_eq Let_def split: option.splits)

lemma push_errors_eq: "push_errors es messages = messages @ candidates es"
  by (induction es messages rule: push_errors.induct)
     (simp_all add: candidates_def push_error_eq)

lemma nonblank_trim_nonempty: "nonblank_trim s \<noteq> Some []"
  by (simp add: nonblank_trim_def split: option.splits)

lemma stack_candidate_nonempty: "[] \<notin> set (stack_candidate stack)"
  using nonblank_trim_nonempty [of "stack_message stack"]
    nonblank_trim_nonempty [of "stack_stack stack"]
  by (auto simp add: stack_candidate_def split: option.splits)

lemma error_candidates_nonempty: "[] \<notin> set (error_candidates error)"
  using nonblank_trim_nonempty [of "error_message error"]
    nonblank_trim_nonempty [of "error_stack error"] stack_candidate_nonempty
  by (auto simp add: error_candidates_def split: option.splits)

lemma candidates_nonempty: "[] \<notin> set (candidates es)"
  using error_candidates_nonempty by (auto simp add: candidates_def split: option.splits)

lemma indexOf_absent: "v \<notin> set xs \<Longrightarrow> indexOf xs v = - 1"
  by (induction xs) auto

lemma indexOf_present: "v \<in> set xs \<Longrightarrow> 0 \<le> indexOf xs v \<and> indexOf xs v < int (length xs)"
  by (induction xs) (auto simp add: Let_def)

lemma indexOf_first:
  "(indexOf (pre @ x # xs) x = int (length pre)) = (x \<notin> set pre)"
proof (induction pre)
  case Nil
  show ?case by simp
next
  case (Cons p pre)
  show ?case
  proof (cases "p = x")
    case True
    then show ?thesis by simp
  next
    case False
    have "x \<in> set (pre @ x # xs)" by simp
    from indexOf_present [OF this] have "0 \<le> indexOf (pre @ x # xs) x" by simp
    with False Cons show ?thesis by (simp add: Let_def)
  qed
qed

lemma unseen_seen_set: "set seen = set seen' \<Longrightarrow> unseen seen xs = unseen seen' xs"
proof (induction xs arbitrary: seen seen')
  case Nil
  show ?case by simp
next
  case (Cons x xs)
  from Cons.prems have "set (seen @ [x]) = set (seen' @ [x])" by simp
  from Cons.IH [OF this] Cons.IH [OF Cons.prems] Cons.prems show ?case by simp
qed

lemma filter_from_first_occurrence:
  "filter_from (length pre) (\<lambda>v k. indexOf (pre @ xs) v = int k) xs = unseen pre xs"
proof (induction xs arbitrary: pre)
  case Nil
  show ?case by simp
next
  case (Cons x xs)
  have "x \<in> set pre \<Longrightarrow> unseen (pre @ [x]) xs = unseen pre xs"
    by (rule unseen_seen_set) auto
  with Cons [of "pre @ [x]"] show ?case
    by (simp add: indexOf_first)
qed

lemma filter_from_cong:
  "(\<And>x k. x \<in> set xs \<Longrightarrow> p x k = q x k) \<Longrightarrow> filter_from i p xs = filter_from i q xs"
  by (induction xs arbitrary: i) auto

lemma unique_first_occurrences:
  assumes "[] \<notin> set messages"
  shows "filter_indexed (\<lambda>value index. length value > 0 \<and> indexOf messages value = int index)
           messages = first_occurrences messages"
proof -
  have "filter_from 0 (\<lambda>value index. length value > 0 \<and> indexOf messages value = int index)
          messages = filter_from 0 (\<lambda>v k. indexOf messages v = int k) messages"
    using assms by (intro filter_from_cong) auto
  also have "\<dots> = unseen [] messages"
    using filter_from_first_occurrence [of "[]" messages] by simp
  finally show ?thesis
    by (simp add: filter_indexed_def first_occurrences_def)
qed

lemma unseen_set: "set (unseen seen xs) = set xs - set seen"
  by (induction xs arbitrary: seen) auto

lemma unseen_distinct: "distinct (unseen seen xs)"
  by (induction xs arbitrary: seen) (auto simp add: unseen_set)

lemma first_occurrences_empty: "(first_occurrences xs = []) = (xs = [])"
  by (cases xs) (simp_all add: first_occurrences_def)

lemma formatTaskErrors_reconcile: "formatTaskErrors errs = reconcile errs"
proof (cases errs)
  case None
  then show ?thesis by (simp add: formatTaskErrors_def reconcile_def)
next
  case (Some es)
  have "filter_indexed
          (\<lambda>value index. length value > 0 \<and> indexOf (candidates es) value = int index)
          (candidates es) = first_occurrences (candidates es)"
    by (rule unique_first_occurrences) (rule candidates_nonempty)
  with Some show ?thesis
    by (cases es)
       (simp_all add: formatTaskErrors_def reconcile_def push_errors_eq Let_def
          candidates_def first_occurrences_def)
qed

lemma remdups_snoc: "remdups (ys @ [x]) = filter (\<lambda>y. y \<noteq> x) (remdups ys) @ [x]"
  by (induction ys) auto

lemma unseen_remdups:
  "unseen seen xs = filter (\<lambda>x. x \<notin> set seen) (rev (remdups (rev xs)))"
proof (induction xs arbitrary: seen)
  case Nil
  show ?case by simp
next
  case (Cons x xs)
  have step: "rev (remdups (rev (x # xs))) = x # filter (\<lambda>y. y \<noteq> x) (rev (remdups (rev xs)))"
    by (simp add: remdups_snoc rev_filter)
  show ?case
  proof (cases "x \<in> set seen")
    case True
    then have "filter (\<lambda>y. y \<notin> set seen) (filter (\<lambda>y. y \<noteq> x) (rev (remdups (rev xs)))) =
        filter (\<lambda>y. y \<notin> set seen) (rev (remdups (rev xs)))"
      by (auto intro: filter_cong)
    with True Cons [of seen] show ?thesis
      by (simp only: step unseen.simps filter.simps if_True if_False simp_thms)
  next
    case False
    have "filter (\<lambda>y. y \<notin> set (seen @ [x])) (rev (remdups (rev xs))) =
        filter (\<lambda>y. y \<notin> set seen) (filter (\<lambda>y. y \<noteq> x) (rev (remdups (rev xs))))"
      by (auto intro: filter_cong)
    with False Cons [of "seen @ [x]"] show ?thesis
      by (simp only: step unseen.simps filter.simps if_True if_False simp_thms)
  qed
qed

lemma first_occurrences_remdups: "first_occurrences xs = rev (remdups (rev xs))"
  by (simp add: first_occurrences_def unseen_remdups)

text \<open>
  C6. For every (possibly absent) sequence of task errors, \<open>formatTaskErrors\<close> is the
  reconciler of the specification: it collects the candidates of every non-null error,
  keeps the first occurrence of each string in order, and joins them with a blank
  line; it returns null exactly when the input is absent or empty or has no candidate.
  Keeping first occurrences is the list library's \<open>remdups\<close> read from the other end.
\<close>

theorem formatTaskErrors_reconciles:
  "formatTaskErrors errs = reconcile errs \<and>
   (formatTaskErrors errs = None) =
     (errs = None \<or> errs = Some [] \<or> (\<exists>es. errs = Some es \<and> candidates es = [])) \<and>
   first_occurrences ms = rev (remdups (rev ms))"
proof -
  have "(reconcile errs = None) =
     (errs = None \<or> errs = Some [] \<or> (\<exists>es. errs = Some es \<and> candidates es = []))"
    by (cases errs) (auto simp add: reconcile_def first_occurrences_empty candidates_def)
  then show ?thesis
    by (simp add: formatTaskErrors_reconcile first_occurrences_remdups)
qed

theorem formatTaskErrors_reconciles_witness:
  "formatTaskErrors (Some [Some ex_boom, None, Some ex_boom]) = Some ''boom'' \<and>
   formatTaskErrors (Some [Some ex_assertion, Some ex_boom]) =
     Some (''expected 1'' @ blank_line @ ''at f'' @ blank_line @ ''boom'') \<and>
   formatTaskErrors (Some []) = None \<and> formatTaskErrors None = None \<and>
   formatTaskErrors (Some [None]) = None"
proof -
  have "reconcile (Some [Some ex_boom, None, Some ex_boom]) = Some ''boom''"
       "reconcile (Some [Some ex_assertion, Some ex_boom]) =
          Some (''expected 1'' @ blank_line @ ''at f'' @ blank_line @ ''boom'')"
       "reconcile (Some []) = None" "reconcile None = None" "reconcile (Some [None]) = None"
    by (simp_all add: reconcile_def candidates_def error_candidates_def stack_candidate_def
        first_occurrences_def ex_boom_def ex_assertion_def nonblank_trim_def trim_def
        js_whitespace_def blank_line_def)
  moreover have "formatTaskErrors errs = reconcile errs" for errs
    using formatTaskErrors_reconciles [of errs "[]"] by (rule conjunct1)
  ultimately show ?thesis
    by (simp only: simp_thms)
qed

section \<open>Modules that are dropped, and the duration pool\<close>

lemma collectTaskResults_acc:
  "collectTaskResults tasks fp acc = acc @ collectTaskResults tasks fp []"
  using collectTaskResults_outcomes [of tasks fp acc] collectTaskResults_outcomes [of tasks fp "[]"]
  by simp

lemma card_requested: "(card (set (map f xs)) > 0) = (xs \<noteq> [])"
  by (simp add: card_gt_0_iff)

lemma module_step_eq:
  assumes "\<And>p. path_resolve p \<noteq> []"
  shows "module_step path_resolve (set (map path_resolve requestedFiles)) requestedFiles m
           (results, pool) =
         (if module_dropped path_resolve requestedFiles m then (results, pool)
          else (results @ module_outcomes path_resolve requestedFiles m,
                pool + pool_contribution m))"
proof -
  have acc: "collectTaskResults tasks fp results = results @ collectTaskResults tasks fp []"
    for tasks fp
    by (rule collectTaskResults_acc)
  show ?thesis
    unfolding module_step_def module_dropped_def card_requested Let_def
    using assms
    by (auto simp add: module_file_def truthy_def pool_contribution_def reported_duration_def
        module_outcomes_def acc [symmetric] split: option.splits)
qed

lemma modules_loop_eq:
  assumes "\<And>p. path_resolve p \<noteq> []"
  shows "modules_loop path_resolve (set (map path_resolve requestedFiles)) requestedFiles modules
           (results, pool) =
         (results @ concat (map (module_outcomes path_resolve requestedFiles)
                              (kept_modules path_resolve requestedFiles modules)),
          pool + sum_list (map pool_contribution
                             (kept_modules path_resolve requestedFiles modules)))"
proof (induction modules arbitrary: results pool)
  case Nil
  show ?case by (simp add: kept_modules_def)
next
  case (Cons m modules)
  show ?case
  proof (cases "module_dropped path_resolve requestedFiles m")
    case True
    then show ?thesis
      by (simp only: modules_loop.simps module_step_eq [OF assms] Cons if_True)
         (simp add: kept_modules_def)
  next
    case False
    then show ?thesis
      by (simp only: modules_loop.simps module_step_eq [OF assms] Cons if_False)
         (simp add: kept_modules_def)
  qed
qed

lemmas ex_module_defs =
  ex_resolve_def ex_module_a_def ex_module_b_def ex_module_empty_def ex_module_zero_def
  ex_module_nofile_def

lemmas module_defs =
  module_dropped_def reported_duration_def pool_contribution_def module_outcomes_def
  kept_modules_def module_file_def first_or_placeholder_def

lemma ex_resolve_nonempty: "ex_resolve p \<noteq> []"
  by (cases p) (simp_all add: ex_resolve_def)

text \<open>
  C7, amended. For a \<^verbatim>\<open>path.resolve\<close> that never returns the empty string: a module
  is dropped, leaving the results and the pool as they were, exactly when the list of
  requested files is not empty, the module has a file path and the resolved path is
  not among the resolved requested files. Every other module appends the outcomes of
  its tasks, and adds its reported duration, floored at 0, to the pool when it has a
  file path; a module without a file path adds nothing to the pool. A module with no
  tasks appends nothing and still adds its duration.
\<close>

theorem modules_loop_drops_and_pools:
  assumes "\<And>p. path_resolve p \<noteq> []"
  shows "modules_loop path_resolve (set (map path_resolve requestedFiles)) requestedFiles modules
           (results, pool) =
         (results @ concat (map (module_outcomes path_resolve requestedFiles)
                              (kept_modules path_resolve requestedFiles modules)),
          pool + sum_list (map pool_contribution
                             (kept_modules path_resolve requestedFiles modules))) \<and>
         module_step path_resolve (set (map path_resolve requestedFiles)) requestedFiles m
           (results, pool) =
         (if module_dropped path_resolve requestedFiles m then (results, pool)
          else (results @ module_outcomes path_resolve requestedFiles m,
                pool + pool_contribution m))"
proof
  show "modules_loop path_resolve (set (map path_resolve requestedFiles)) requestedFiles modules
           (results, pool) =
         (results @ concat (map (module_outcomes path_resolve requestedFiles)
                              (kept_modules path_resolve requestedFiles modules)),
          pool + sum_list (map pool_contribution
                             (kept_modules path_resolve requestedFiles modules)))"
    by (rule modules_loop_eq) (rule assms)
next
  show "module_step path_resolve (set (map path_resolve requestedFiles)) requestedFiles m
           (results, pool) =
         (if module_dropped path_resolve requestedFiles m then (results, pool)
          else (results @ module_outcomes path_resolve requestedFiles m,
                pool + pool_contribution m))"
    by (rule module_step_eq) (rule assms)
qed

theorem modules_loop_drops_and_pools_witness:
  "ex_resolve ''a.test.ts'' \<noteq> [] \<and>
   kept_modules ex_resolve [''/w/a.test.ts''] [ex_module_a, ex_module_b, ex_module_empty] =
     [ex_module_a, ex_module_empty] \<and>
   module_outcomes ex_resolve [''/w/a.test.ts''] ex_module_empty = [] \<and>
   pool_contribution ex_module_empty = 30 \<and>
   snd (modules_loop ex_resolve (set (map ex_resolve [''/w/a.test.ts''])) [''/w/a.test.ts'']
          [ex_module_a, ex_module_b, ex_module_empty] ([], 0)) = 150 \<and>
   length (fst (modules_loop ex_resolve (set (map ex_resolve [''/w/a.test.ts'']))
                  [''/w/a.test.ts''] [ex_module_a, ex_module_b, ex_module_empty] ([], 0))) = 3 \<and>
   module_step ex_resolve (set (map ex_resolve [''/w/a.test.ts''])) [''/w/a.test.ts'']
     ex_module_b ([], 0) = ([], 0)"
proof -
  have kept: "kept_modules ex_resolve [''/w/a.test.ts'']
      [ex_module_a, ex_module_b, ex_module_empty] = [ex_module_a, ex_module_empty]"
    by (simp add: kept_modules_def module_dropped_def ex_module_defs)
  have dropped: "module_dropped ex_resolve [''/w/a.test.ts''] ex_module_b"
    by (simp add: module_dropped_def ex_module_defs)
  have empty: "module_outcomes ex_resolve [''/w/a.test.ts''] ex_module_empty = []"
    by (simp add: module_defs ex_module_defs)
  have a: "length (module_outcomes ex_resolve [''/w/a.test.ts''] ex_module_a) = 3"
    by (simp add: module_defs ex_module_defs ex_defs flatten_defs)
  have pool: "pool_contribution ex_module_a = 120" "pool_contribution ex_module_empty = 30"
    by (simp_all add: module_defs ex_module_defs)
  show ?thesis
    using modules_loop_drops_and_pools [of ex_resolve "[''/w/a.test.ts'']"
        "[ex_module_a, ex_module_b, ex_module_empty]" "[]" 0 ex_module_b, OF ex_resolve_nonempty]
    by (simp only: kept dropped empty pool) (simp add: a ex_resolve_nonempty empty pool)
qed

text \<open>
  C7 as stated fails on a module without a file path: it is not dropped, it reports
  120, and the pool stays 0.
\<close>

theorem module_without_file_counterexample:
  "\<not> module_dropped ex_resolve [''/w/a.test.ts''] ex_module_nofile \<and>
   reported_duration ex_module_nofile = 120 \<and>
   snd (module_step ex_resolve (set (map ex_resolve [''/w/a.test.ts''])) [''/w/a.test.ts'']
          ex_module_nofile ([], 0)) = 0"
  by (simp add: module_step_def module_defs truthy_def ex_module_defs)

section \<open>Unhandled errors and the duration of a summary\<close>

lemma push_unhandled_eq:
  "push_unhandled es targetFile results =
     results @ map (\<lambda>error. \<lparr>res_name = ''[unhandled]'', res_file = targetFile,
                              res_passed = False,
                              res_message = Some (formatUnhandledError error),
                              res_durationMs = 0\<rparr>) es"
  by (induction es targetFile results rule: push_unhandled.induct) simp_all

lemma appendUnhandledErrors_eq:
  "appendUnhandledErrors errs requestedFiles results =
     results @ map (unhandled_result requestedFiles) (case errs of None \<Rightarrow> [] | Some es \<Rightarrow> es)"
  by (cases errs)
     (simp_all add: appendUnhandledErrors_def push_unhandled_eq unhandled_result_def)

lemma buildSummaryFromVitest_results:
  "summary_results (buildSummaryFromVitest path_resolve modules unhandledErrors requestedFiles) =
     flattened_results path_resolve modules requestedFiles @
     map (unhandled_result requestedFiles)
       (case unhandledErrors of None \<Rightarrow> [] | Some es \<Rightarrow> es)"
  by (simp add: buildSummaryFromVitest_def Let_def flattened_results_def
      appendUnhandledErrors_eq)

lemma foldl_durations:
  "foldl (\<lambda>total result. total + max 0 (res_durationMs result)) a rs =
     a + sum_list (map (\<lambda>r. max 0 (res_durationMs r)) rs)"
  by (induction rs arbitrary: a) simp_all

lemma buildSummaryFromVitest_duration:
  "summary_durationMs (buildSummaryFromVitest path_resolve modules unhandledErrors requestedFiles) =
     (let results =
            summary_results
              (buildSummaryFromVitest path_resolve modules unhandledErrors requestedFiles);
          fromTests = sum_list (map (\<lambda>r. max 0 (res_durationMs r)) results)
      in if fromTests > 0 then fromTests
         else module_pool path_resolve modules requestedFiles)"
  by (simp add: buildSummaryFromVitest_def Let_def module_pool_def foldl_durations)

lemma invoke_engine_returned:
  assumes "outcome (startVitest_call h sv env files) = Inr ctx"
  shows "snd (invoke_engine h sv env files) =
     Inr (let summary =
                buildSummaryFromVitest (host_path_resolve h) (getFiles ctx)
                  (context_unhandled ctx) (map (host_path_resolve h) files)
          in if summary_durationMs summary > 0 then summary
             else summary\<lparr>summary_durationMs :=
                    now_after (startVitest_call h sv env files) - host_now h\<rparr>)"
  using assms by (simp add: invoke_engine_def Let_def context_unhandled_def)

lemma invoke_engine_threw:
  assumes "outcome (startVitest_call h sv env files) = Inl error"
  shows "snd (invoke_engine h sv env files) =
     Inr (createFailureSummary files
            (formatFailureMessage (execution_failure_reason error)
               (concat (stdout_chunks (startVitest_call h sv env files)))
               (concat (stderr_chunks (startVitest_call h sv env files)))))"
  using assms by (simp add: invoke_engine_def Let_def)

lemma runVitest_loaded:
  "engine_loaded h sv \<Longrightarrow> runVitest h env files = invoke_engine h sv env files"
  by (auto simp add: engine_loaded_def runVitest_def resolveVitestPackage_def
      split: sum.splits)

lemma runTests_returned:
  assumes "files \<noteq> []" "engine_loaded h sv"
    "outcome (startVitest_call h sv env files) = Inr ctx"
  shows "snd (runTests h env files) =
     Inr (let summary =
                buildSummaryFromVitest (host_path_resolve h) (getFiles ctx)
                  (context_unhandled ctx) (map (host_path_resolve h) files)
          in if summary_durationMs summary > 0 then summary
             else summary\<lparr>summary_durationMs :=
                    now_after (startVitest_call h sv env files) - host_now h\<rparr>)"
  using assms by (simp add: runTests_def runVitest_loaded invoke_engine_returned)

lemmas ex_host_defs =
  ex_relative_def ex_engine_def ex_host_def ex_env_def ex_context_unhandled_def
  ex_context_zero_def

lemmas summary_defs =
  buildSummaryFromVitest_def module_step_def module_file_def truthy_def
  first_or_placeholder_def appendUnhandledErrors_def formatUnhandledError_def
  context_unhandled_def createFailureSummary_def formatFailureMessage_def
  execution_failure_reason_def

lemma ex_host_loaded: "engine_loaded (ex_host sv) sv"
  by (simp add: engine_loaded_def ex_host_def)

lemma ex_host_now: "host_now (ex_host sv) = 1000"
  by (simp add: ex_host_def)

lemma ex_engine_outcome:
  "outcome (startVitest_call (ex_host (ex_engine result)) (ex_engine result) env files) = result"
  by (simp add: startVitest_call_def ex_engine_def)

lemma ex_engine_now_after:
  "now_after (startVitest_call (ex_host (ex_engine result)) (ex_engine result) env files) = 1200"
  by (simp add: startVitest_call_def ex_engine_def)

text \<open>
  C8. The results of the summary are the flattened results followed by one failing
  result for each unhandled error, in order: named \<^verbatim>\<open>[unhandled]\<close>, filed under the
  first requested file (the placeholder when there is none), with the message of
  \<open>formatUnhandledError\<close> and the duration 0; there are none when the sequence is
  absent. When the engine resolves, \<open>runTests\<close> returns that summary: unhandled
  errors do not turn the run into a failure summary. (The builder is called with the
  resolved files, so through \<open>runTests\<close> the first requested file is its resolved
  path.)
\<close>

theorem unhandled_errors_appended:
  "summary_results (buildSummaryFromVitest path_resolve modules unhandledErrors requestedFiles) =
     flattened_results path_resolve modules requestedFiles @
     map (\<lambda>error. \<lparr>res_name = ''[unhandled]'', res_file = first_or_placeholder requestedFiles,
                     res_passed = False, res_message = Some (formatUnhandledError error),
                     res_durationMs = 0\<rparr>)
       (case unhandledErrors of None \<Rightarrow> [] | Some es \<Rightarrow> es) \<and>
   (files \<noteq> [] \<and> engine_loaded h sv \<and>
    outcome (startVitest_call h sv env files) = Inr ctx \<longrightarrow>
      (\<exists>s. snd (runTests h env files) = Inr s \<and>
           summary_results s =
             summary_results
               (buildSummaryFromVitest (host_path_resolve h) (getFiles ctx)
                  (context_unhandled ctx) (map (host_path_resolve h) files))))"
proof
  show "summary_results (buildSummaryFromVitest path_resolve modules unhandledErrors requestedFiles) =
     flattened_results path_resolve modules requestedFiles @
     map (\<lambda>error. \<lparr>res_name = ''[unhandled]'', res_file = first_or_placeholder requestedFiles,
                     res_passed = False, res_message = Some (formatUnhandledError error),
                     res_durationMs = 0\<rparr>)
       (case unhandledErrors of None \<Rightarrow> [] | Some es \<Rightarrow> es)"
    using buildSummaryFromVitest_results [of path_resolve modules unhandledErrors requestedFiles]
    by (simp add: unhandled_result_def [abs_def])
next
  show "files \<noteq> [] \<and> engine_loaded h sv \<and>
    outcome (startVitest_call h sv env files) = Inr ctx \<longrightarrow>
      (\<exists>s. snd (runTests h env files) = Inr s \<and>
           summary_results s =
             summary_results
               (buildSummaryFromVitest (host_path_resolve h) (getFiles ctx)
                  (context_unhandled ctx) (map (host_path_resolve h) files)))"
  proof
    assume a: "files \<noteq> [] \<and> engine_loaded h sv \<and>
      outcome (startVitest_call h sv env files) = Inr ctx"
    then have "snd (runTests h env files) =
      Inr (let summary =
                buildSummaryFromVitest (host_path_resolve h) (getFiles ctx)
                  (context_unhandled ctx) (map (host_path_resolve h) files)
          in if summary_durationMs summary > 0 then summary
             else summary\<lparr>summary_durationMs :=
                    now_after (startVitest_call h sv env files) - host_now h\<rparr>)"
      by (intro runTests_returned) simp_all
    then show "\<exists>s. snd (runTests h env files) = Inr s \<and>
           summary_results s =
             summary_results
               (buildSummaryFromVitest (host_path_resolve h) (getFiles ctx)
                  (context_unhandled ctx) (map (host_path_resolve h) files))"
      by (simp add: Let_def)
  qed
qed

theorem unhandled_errors_appended_witness:
  "[''a.test.ts''] \<noteq> [] \<and>
   engine_loaded (ex_host (ex_engine (Inr ex_context_unhandled)))
     (ex_engine (Inr ex_context_unhandled)) \<and>
   (\<exists>s. snd (runTests (ex_host (ex_engine (Inr ex_context_unhandled))) ex_env [''a.test.ts''])
          = Inr s \<and>
        summary_total s = 3 \<and> summary_passed s = 2 \<and> summary_failed s = 1 \<and>
        summary_results s =
          [\<lparr>res_name = ''inner'', res_file = ''/w/a.test.ts'', res_passed = True,
            res_message = None, res_durationMs = 5\<rparr>,
           \<lparr>res_name = ''inner'', res_file = ''/w/a.test.ts'', res_passed = True,
            res_message = None, res_durationMs = 5\<rparr>,
           \<lparr>res_name = ''[unhandled]'', res_file = ''/w/a.test.ts'', res_passed = False,
            res_message = Some ''late rejection'', res_durationMs = 0\<rparr>])"
proof -
  let ?sv = "ex_engine (Inr ex_context_unhandled)"
  let ?h = "ex_host ?sv"
  have hyp: "[''a.test.ts''] \<noteq> [] \<and> engine_loaded ?h ?sv \<and>
      outcome (startVitest_call ?h ?sv ex_env [''a.test.ts'']) = Inr ex_context_unhandled"
    by (simp add: ex_host_loaded ex_engine_outcome)
  have build: "buildSummaryFromVitest (host_path_resolve ?h) (getFiles ex_context_unhandled)
       (context_unhandled ex_context_unhandled) [host_path_resolve ?h ''a.test.ts''] =
     \<lparr>summary_passed = 2, summary_failed = 1, summary_total = 3, summary_durationMs = 10,
      summary_results =
          [\<lparr>res_name = ''inner'', res_file = ''/w/a.test.ts'', res_passed = True,
            res_message = None, res_durationMs = 5\<rparr>,
           \<lparr>res_name = ''inner'', res_file = ''/w/a.test.ts'', res_passed = True,
            res_message = None, res_durationMs = 5\<rparr>,
           \<lparr>res_name = ''[unhandled]'', res_file = ''/w/a.test.ts'', res_passed = False,
            res_message = Some ''late rejection'', res_durationMs = 0\<rparr>]\<rparr>"
    by (simp add: ex_host_defs ex_module_defs ex_defs summary_defs flatten_defs)
  have counts: "\<exists>s. snd (runTests ?h ex_env [''a.test.ts'']) = Inr s \<and>
       summary_total s = 3 \<and> summary_passed s = 2 \<and> summary_failed s = 1"
    using runTests_returned [of "[''a.test.ts'']" ?h ?sv ex_env ex_context_unhandled] hyp
    by (simp add: build)
  from unhandled_errors_appended [of _ _ _ _ "[''a.test.ts'']" ?h ?sv ex_env ex_context_unhandled]
    hyp
  have "\<exists>s. snd (runTests ?h ex_env [''a.test.ts'']) = Inr s \<and>
           summary_results s =
             summary_results
               (buildSummaryFromVitest (host_path_resolve ?h) (getFiles ex_context_unhandled)
                  (context_unhandled ex_context_unhandled)
                  (map (host_path_resolve ?h) [''a.test.ts'']))"
    by blast
  with counts hyp show ?thesis
    by (auto simp add: build)
qed

lemma returned_summary_duration:
  "summary_durationMs
     (let summary = buildSummaryFromVitest path_resolve modules unhandledErrors requestedFiles
      in if summary_durationMs summary > 0 then summary
         else summary\<lparr>summary_durationMs := elapsed\<rparr>) =
   duration_rollup
     (summary_results
        (buildSummaryFromVitest path_resolve modules unhandledErrors requestedFiles))
     (module_pool path_resolve modules requestedFiles) elapsed"
  using buildSummaryFromVitest_duration [of path_resolve modules unhandledErrors requestedFiles]
  by (simp add: Let_def duration_rollup_def)

lemma sum_list_map_durations:
  "sum_list (map (\<lambda>r. max 0 (res_durationMs r)) rs) = sum_list (map (max 0) (map res_durationMs rs))"
  by (simp add: o_def)

text \<open>
  C5, amended. When the engine is loaded and its call resolves, the summary that
  \<open>runTests\<close> returns has as \<open>durationMs\<close> the sum of its per-result durations, each
  floored at 0, when that sum is positive, else the pool of module durations when that
  is positive, else the time elapsed between the two clock readings. The empty summary
  and every failure summary have \<open>durationMs = 0\<close>.
\<close>

theorem summary_duration_rollup:
  "(files \<noteq> [] \<and> engine_loaded h sv \<and>
    outcome (startVitest_call h sv env files) = Inr ctx \<longrightarrow>
      (\<exists>s. snd (runTests h env files) = Inr s \<and>
           summary_durationMs s =
             duration_rollup (summary_results s)
               (module_pool (host_path_resolve h) (getFiles ctx)
                  (map (host_path_resolve h) files))
               (now_after (startVitest_call h sv env files) - host_now h))) \<and>
   summary_durationMs (createFailureSummary files msg) = 0 \<and>
   summary_durationMs createEmptySummary = 0"
proof (intro conjI impI)
  assume a: "files \<noteq> [] \<and> engine_loaded h sv \<and>
    outcome (startVitest_call h sv env files) = Inr ctx"
  let ?summary = "buildSummaryFromVitest (host_path_resolve h) (getFiles ctx)
                  (context_unhandled ctx) (map (host_path_resolve h) files)"
  let ?elapsed = "now_after (startVitest_call h sv env files) - host_now h"
  let ?s = "let summary = ?summary
            in if summary_durationMs summary > 0 then summary
               else summary\<lparr>summary_durationMs := ?elapsed\<rparr>"
  from a have run: "snd (runTests h env files) = Inr ?s"
    by (intro runTests_returned) simp_all
  have "summary_results ?s = summary_results ?summary"
    by (simp add: Let_def)
  then have "summary_durationMs ?s =
      duration_rollup (summary_results ?s)
        (module_pool (host_path_resolve h) (getFiles ctx) (map (host_path_resolve h) files))
        ?elapsed"
    by (simp only: returned_summary_duration)
  with run show "\<exists>s. snd (runTests h env files) = Inr s \<and>
           summary_durationMs s =
             duration_rollup (summary_results s)
               (module_pool (host_path_resolve h) (getFiles ctx)
                  (map (host_path_resolve h) files))
               (now_after (startVitest_call h sv env files) - host_now h)"
    by blast
next
  show "summary_durationMs (createFailureSummary files msg) = 0"
    by (simp add: createFailureSummary_def Let_def)
next
  show "summary_durationMs createEmptySummary = 0"
    by (simp add: createEmptySummary_def)
qed

theorem summary_duration_rollup_witness:
  "[''a.test.ts''] \<noteq> [] \<and>
   engine_loaded (ex_host (ex_engine (Inr ex_context_zero))) (ex_engine (Inr ex_context_zero)) \<and>
   module_pool ex_resolve (getFiles ex_context_zero) [''/w/a.test.ts''] = 120 \<and>
   (\<exists>s. snd (runTests (ex_host (ex_engine (Inr ex_context_zero))) ex_env [''a.test.ts'']) = Inr s \<and>
        map res_durationMs (summary_results s) = [0, 0] \<and>
        summary_durationMs s = 120)"
proof -
  let ?sv = "ex_engine (Inr ex_context_zero)"
  let ?h = "ex_host ?sv"
  have hyp: "[''a.test.ts''] \<noteq> [] \<and> engine_loaded ?h ?sv \<and>
      outcome (startVitest_call ?h ?sv ex_env [''a.test.ts'']) = Inr ex_context_zero"
    by (simp add: ex_host_loaded ex_engine_outcome)
  have pool: "module_pool ex_resolve (getFiles ex_context_zero) [''/w/a.test.ts''] = 120"
    by (simp add: module_pool_def ex_host_defs ex_module_defs ex_defs summary_defs flatten_defs)
  have build: "summary_results (buildSummaryFromVitest (host_path_resolve ?h)
         (getFiles ex_context_zero) (context_unhandled ex_context_zero)
         [host_path_resolve ?h ''a.test.ts'']) =
     [\<lparr>res_name = ''broken'', res_file = ''/w/a.test.ts'', res_passed = False,
       res_message = Some ''boom'', res_durationMs = 0\<rparr>,
      \<lparr>res_name = ''later'', res_file = ''/w/a.test.ts'', res_passed = True,
       res_message = None, res_durationMs = 0\<rparr>]"
    by (simp add: ex_host_defs ex_module_defs ex_defs summary_defs flatten_defs)
  have pool': "module_pool (host_path_resolve ?h) (getFiles ex_context_zero)
         [host_path_resolve ?h ''a.test.ts''] = 120"
    by (simp add: module_pool_def ex_host_defs ex_module_defs ex_defs summary_defs flatten_defs)
  have results: "\<exists>s. snd (runTests ?h ex_env [''a.test.ts'']) = Inr s \<and>
      map res_durationMs (summary_results s) = [0, 0]"
    using runTests_returned [of "[''a.test.ts'']" ?h ?sv ex_env ex_context_zero] hyp
    by (simp add: Let_def build)
  from summary_duration_rollup [of "[''a.test.ts'']" ?h ?sv ex_env ex_context_zero] hyp
  have "\<exists>s. snd (runTests ?h ex_env [''a.test.ts'']) = Inr s \<and>
      summary_durationMs s = duration_rollup (summary_results s) 120 (1200 - 1000)"
    by (simp add: pool' ex_engine_now_after ex_host_now)
  with results have "\<exists>s. snd (runTests ?h ex_env [''a.test.ts'']) = Inr s \<and>
      map res_durationMs (summary_results s) = [0, 0] \<and> summary_durationMs s = 120"
    by (auto simp add: duration_rollup_def sum_list_map_durations)
  with hyp pool show ?thesis
    by blast
qed

text \<open>
  C5 as stated fails on a failure summary: the engine rejects 200 ms after it was
  called, no test and no module reported a duration, and \<open>durationMs\<close> is 0, not 200.
\<close>

theorem failure_summary_duration_counterexample:
  "now_after (startVitest_call (ex_host (ex_engine (Inl (JsError ''boom'' None))))
               (ex_engine (Inl (JsError ''boom'' None))) ex_env [''a.test.ts'']) -
     host_now (ex_host (ex_engine (Inl (JsError ''boom'' None)))) = 200 \<and>
   (\<exists>s. snd (runTests (ex_host (ex_engine (Inl (JsError ''boom'' None)))) ex_env
               [''a.test.ts'']) = Inr s \<and>
        summary_durationMs s = 0 \<and>
        duration_rollup (summary_results s) 0 200 = 200)"
proof -
  let ?sv = "ex_engine (Inl (JsError ''boom'' None))"
  let ?h = "ex_host ?sv"
  have "snd (runTests ?h ex_env [''a.test.ts'']) =
      Inr (createFailureSummary [''a.test.ts'']
            (formatFailureMessage (execution_failure_reason (JsError ''boom'' None))
               (concat (stdout_chunks (startVitest_call ?h ?sv ex_env [''a.test.ts''])))
               (concat (stderr_chunks (startVitest_call ?h ?sv ex_env [''a.test.ts''])))))"
    by (simp add: runTests_def runVitest_loaded [OF ex_host_loaded] invoke_engine_threw
        ex_engine_outcome)
  then show ?thesis
    by (simp add: createFailureSummary_def Let_def duration_rollup_def ex_engine_now_after
        ex_host_now)
qed

section \<open>Engine failures become failure summaries\<close>

lemma createFailureSummary_eq:
  "createFailureSummary files msg = failure_summary files (trim msg)"
  by (simp add: createFailureSummary_def failure_summary_def failing_result_def [abs_def] Let_def)

lemma trim_ends:
  "trim s = [] \<or> (\<not> js_whitespace (hd (trim s)) \<and> \<not> js_whitespace (last (trim s)))"
proof (cases "dropWhile js_whitespace s = []")
  case True
  then have "trim s = []"
    by (simp only: trim_def rev.simps dropWhile.simps)
  then show ?thesis by simp
next
  case False
  let ?t = "dropWhile js_whitespace s"
  let ?u = "dropWhile js_whitespace (rev ?t)"
  from False have hd_t: "\<not> js_whitespace (hd ?t)"
    by (rule hd_dropWhile)
  from False have "last (rev ?t) = hd ?t"
    by (simp add: last_rev)
  with hd_t False have "\<exists>x \<in> set (rev ?t). \<not> js_whitespace x"
    by (metis last_in_set rev_is_Nil_conv)
  then have u: "?u \<noteq> []"
    by (simp add: dropWhile_eq_Nil_conv)
  then have hd_u: "\<not> js_whitespace (hd ?u)"
    by (rule hd_dropWhile)
  from u have "last ?u = last (rev ?t)"
    by (metis takeWhile_dropWhile_id last_appendR)
  with False have "last ?u = hd ?t"
    by (simp add: last_rev)
  with hd_t hd_u u show ?thesis
    by (simp add: trim_def hd_rev last_rev)
qed

lemma trim_fixed:
  assumes "s \<noteq> []" "\<not> js_whitespace (hd s)" "\<not> js_whitespace (last s)"
  shows "trim s = s"
proof -
  from assms have "dropWhile js_whitespace s = s"
    by (cases s) simp_all
  moreover from assms have "dropWhile js_whitespace (rev s) = rev s"
    by (cases "rev s") (simp_all add: hd_rev [symmetric])
  ultimately show ?thesis
    by (simp add: trim_def)
qed

lemma trim_empty_iff: "(trim s = []) = (\<forall>c \<in> set s. js_whitespace c)"
proof
  assume "trim s = []"
  then have all: "\<forall>c \<in> set (dropWhile js_whitespace s). js_whitespace c"
    by (simp add: trim_def dropWhile_eq_Nil_conv)
  have "dropWhile js_whitespace s = []"
  proof (rule ccontr)
    assume ne: "dropWhile js_whitespace s \<noteq> []"
    then have "\<not> js_whitespace (hd (dropWhile js_whitespace s))"
      by (rule hd_dropWhile)
    with ne all show False
      by (metis hd_in_set)
  qed
  then show "\<forall>c \<in> set s. js_whitespace c"
    by (simp add: dropWhile_eq_Nil_conv)
next
  assume "\<forall>c \<in> set s. js_whitespace c"
  then have "dropWhile js_whitespace s = []"
    by (simp add: dropWhile_eq_Nil_conv)
  then show "trim s = []"
    by (simp only: trim_def rev.simps dropWhile.simps)
qed

lemma formatFailureMessage_sections:
  "formatFailureMessage reason stdout stderr =
     trim reason @ output_section ''[stdout]'' stdout @ output_section ''[stderr]'' stderr"
  by (simp add: formatFailureMessage_def output_section_def Let_def)

lemma output_section_last:
  "output_section label captured \<noteq> [] \<Longrightarrow>
   \<not> js_whitespace (last (output_section label captured))"
  using trim_ends [of captured] by (auto simp add: output_section_def split: if_splits)

lemma trim_sections:
  assumes "trim reason \<noteq> []"
  shows "trim (trim reason @ output_section l1 t1 @ output_section l2 t2) =
         trim reason @ output_section l1 t1 @ output_section l2 t2"
proof (rule trim_fixed)
  show "trim reason @ output_section l1 t1 @ output_section l2 t2 \<noteq> []"
    using assms by simp
  show "\<not> js_whitespace (hd (trim reason @ output_section l1 t1 @ output_section l2 t2))"
    using assms trim_ends [of reason] by simp
  show "\<not> js_whitespace (last (trim reason @ output_section l1 t1 @ output_section l2 t2))"
    using assms trim_ends [of reason] output_section_last [of l1 t1]
      output_section_last [of l2 t2]
    by (cases "output_section l2 t2 = []"; cases "output_section l1 t1 = []") simp_all
qed

lemma execution_failure_reason_nonblank: "trim (execution_failure_reason error) \<noteq> []"
  by (cases error)
     (auto simp add: trim_empty_iff execution_failure_reason_def js_whitespace_def)

lemma execution_failure_trimmed:
  "trim (formatFailureMessage (execution_failure_reason error) stdout stderr) =
     execution_failure_message error stdout stderr"
  by (simp add: formatFailureMessage_sections execution_failure_message_def
      trim_sections [OF execution_failure_reason_nonblank])

lemma not_installed_trimmed: "trim not_installed_message = not_installed_message"
  by (rule trim_fixed) (simp_all add: not_installed_message_def js_whitespace_def)

lemma no_export_trimmed: "trim no_export_message = no_export_message"
  by (rule trim_fixed) (simp_all add: no_export_message_def js_whitespace_def)

lemma not_installed_says_so: "sublist ''not installed'' not_installed_message"
proof -
  have "not_installed_message =
      ''[webstir-io/vitest-testing] Vitest runtime '' @ ''not installed'' @
      ''. Install \"vitest\" in the active workspace or ensure it can be resolved.''"
    by (simp add: not_installed_message_def)
  then show ?thesis
    unfolding sublist_def by blast
qed

lemma trim_after_prefix:
  assumes "p \<noteq> []" "\<not> js_whitespace (hd p)"
  shows "suffix (trim r) (trim (p @ r))"
proof (cases "\<forall>c \<in> set r. js_whitespace c")
  case True
  then have "trim r = []" by (simp add: trim_empty_iff)
  then show ?thesis by simp
next
  case False
  let ?w = "takeWhile js_whitespace r"
  let ?t = "dropWhile js_whitespace r"
  from assms have lead: "dropWhile js_whitespace (p @ r) = p @ r"
    by (cases p) simp_all
  from False have inner: "\<exists>c \<in> set (rev r). \<not> js_whitespace c"
    by simp
  then have "dropWhile js_whitespace (rev r @ rev p) = dropWhile js_whitespace (rev r) @ rev p"
    by (metis dropWhile_append1)
  with lead have outer: "trim (p @ r) = p @ rev (dropWhile js_whitespace (rev r))"
    by (simp add: trim_def)
  from False have "?t \<noteq> []"
    by (simp add: dropWhile_eq_Nil_conv)
  then have "\<not> js_whitespace (hd ?t)"
    by (rule hd_dropWhile)
  with \<open>?t \<noteq> []\<close> have "\<exists>c \<in> set (rev ?t). \<not> js_whitespace c"
    by (metis hd_in_set set_rev)
  then have "dropWhile js_whitespace (rev ?t @ rev ?w) =
      dropWhile js_whitespace (rev ?t) @ rev ?w"
    by (metis dropWhile_append1)
  moreover have "rev r = rev ?t @ rev ?w"
    by (metis rev_append takeWhile_dropWhile_id)
  ultimately have "rev (dropWhile js_whitespace (rev r)) = ?w @ trim r"
    by (simp add: trim_def)
  with outer have "trim (p @ r) = (p @ ?w) @ trim r"
    by simp
  then show ?thesis
    unfolding suffix_def by blast
qed

lemma load_failure_contains_reason:
  "suffix (trim (load_failure_reason error)) (trim (load_failure_message error))"
  unfolding load_failure_message_def Let_def
  by (rule trim_after_prefix) (simp_all add: js_whitespace_def)

lemma runVitest_unavailable:
  "host_require_resolve h = Inl error \<or> host_require_resolve h = Inr [] \<Longrightarrow>
   snd (runVitest h env files) = Inr (failure_summary files not_installed_message)"
  by (auto simp add: runVitest_def resolveVitestPackage_def createFailureSummary_eq
      not_installed_trimmed)

lemma runVitest_load_failure:
  "host_require_resolve h = Inr p \<Longrightarrow> p \<noteq> [] \<Longrightarrow> host_import_startVitest h p = Inl error \<Longrightarrow>
   snd (runVitest h env files) = Inr (failure_summary files (trim (load_failure_message error)))"
  by (simp add: runVitest_def resolveVitestPackage_def createFailureSummary_eq)

lemma runVitest_no_export:
  "host_require_resolve h = Inr p \<Longrightarrow> p \<noteq> [] \<Longrightarrow> host_import_startVitest h p = Inr None \<Longrightarrow>
   snd (runVitest h env files) = Inr (failure_summary files no_export_message)"
  by (simp add: runVitest_def resolveVitestPackage_def createFailureSummary_eq
      no_export_trimmed)

lemma runVitest_execution_failure:
  "engine_loaded h sv \<Longrightarrow> outcome (startVitest_call h sv env files) = Inl error \<Longrightarrow>
   snd (runVitest h env files) =
     Inr (failure_summary files
            (execution_failure_message error
               (concat (stdout_chunks (startVitest_call h sv env files)))
               (concat (stderr_chunks (startVitest_call h sv env files)))))"
  by (simp add: runVitest_loaded invoke_engine_threw createFailureSummary_eq
      execution_failure_trimmed)

lemma runTests_nonempty: "files \<noteq> [] \<Longrightarrow> runTests h env files = runVitest h env files"
  by (simp add: runTests_def)

text \<open>
  C1. Whatever the file list and the environment are, no error escapes \<open>runVitest\<close>:
  when the package manifest does not resolve, when the import throws, when the module
  has no callable \<^verbatim>\<open>startVitest\<close>, and when the call of the engine rejects, it
  returns the failure summary for the file list, that is one failing result named
  \<^verbatim>\<open>[vitest provider]\<close> for each requested file, and exactly one when the list is
  empty. The message is the trimmed failure text: it says \<^verbatim>\<open>not installed\<close>; it ends
  with the trimmed reason of the load failure; it is the trimmed reason of the
  execution failure followed by the captured output that is not blank. For a non-empty
  list \<open>runTests\<close> returns what \<open>runVitest\<close> returns (for the empty list it
  returns the empty summary before the engine is looked for).
\<close>

theorem engine_failures_become_summaries:
  "(host_require_resolve h = Inl error \<or> host_require_resolve h = Inr [] \<longrightarrow>
      snd (runVitest h env files) = Inr (failure_summary files not_installed_message)) \<and>
   (host_require_resolve h = Inr p \<and> p \<noteq> [] \<and> host_import_startVitest h p = Inl error \<longrightarrow>
      snd (runVitest h env files) =
        Inr (failure_summary files (trim (load_failure_message error))) \<and>
      suffix (trim (load_failure_reason error)) (trim (load_failure_message error))) \<and>
   (host_require_resolve h = Inr p \<and> p \<noteq> [] \<and> host_import_startVitest h p = Inr None \<longrightarrow>
      snd (runVitest h env files) = Inr (failure_summary files no_export_message)) \<and>
   (engine_loaded h sv \<and> outcome (startVitest_call h sv env files) = Inl error \<longrightarrow>
      snd (runVitest h env files) =
        Inr (failure_summary files
               (execution_failure_message error
                  (concat (stdout_chunks (startVitest_call h sv env files)))
                  (concat (stderr_chunks (startVitest_call h sv env files)))))) \<and>
   (files \<noteq> [] \<longrightarrow> runTests h env files = runVitest h env files) \<and>
   sublist ''not installed'' not_installed_message"
  using runVitest_unavailable [of h error env files]
    runVitest_load_failure [of h p error env files]
    runVitest_no_export [of h p env files]
    runVitest_execution_failure [of h sv env files error]
    runTests_nonempty [of files h env]
    load_failure_contains_reason [of error] not_installed_says_so
  by blast

theorem engine_failures_become_summaries_witness:
  "snd (runTests ex_host_missing ex_env [''a.test.ts'']) =
     Inr \<lparr>summary_passed = 0, summary_failed = 1, summary_total = 1, summary_durationMs = 0,
          summary_results =
            [\<lparr>res_name = ''[vitest provider]'', res_file = ''a.test.ts'', res_passed = False,
              res_message = Some not_installed_message, res_durationMs = 0\<rparr>]\<rparr> \<and>
   snd (runTests ex_host_broken ex_env [''a.test.ts'', ''b.test.ts'']) =
     Inr \<lparr>summary_passed = 0, summary_failed = 2, summary_total = 2, summary_durationMs = 0,
          summary_results =
            [\<lparr>res_name = ''[vitest provider]'', res_file = ''a.test.ts'', res_passed = False,
              res_message =
                Some ''[webstir-io/vitest-testing] Unable to load the Vitest runtime: bad syntax'',
              res_durationMs = 0\<rparr>,
             \<lparr>res_name = ''[vitest provider]'', res_file = ''b.test.ts'', res_passed = False,
              res_message =
                Some ''[webstir-io/vitest-testing] Unable to load the Vitest runtime: bad syntax'',
              res_durationMs = 0\<rparr>]\<rparr> \<and>
   snd (runTests ex_host_no_export ex_env [''a.test.ts'']) =
     Inr (failure_summary [''a.test.ts''] no_export_message) \<and>
   snd (runTests (ex_host (ex_engine (Inl (JsError ''boom'' None)))) ex_env [''a.test.ts'']) =
     Inr \<lparr>summary_passed = 0, summary_failed = 1, summary_total = 1, summary_durationMs = 0,
          summary_results =
            [\<lparr>res_name = ''[vitest provider]'', res_file = ''a.test.ts'', res_passed = False,
              res_message =
                Some (''Vitest execution failed: boom'' @ blank_line @
                      ''[stdout]'' @ [CHR 0x0A] @ ''RUN v3'' @ blank_line @
                      ''[stderr]'' @ [CHR 0x0A] @ ''warn''),
              res_durationMs = 0\<rparr>]\<rparr> \<and>
   summary_results (failure_summary [] no_export_message) =
     [\<lparr>res_name = ''[vitest provider]'', res_file = ''[vitest]'', res_passed = False,
       res_message = Some no_export_message, res_durationMs = 0\<rparr>]"
proof -
  let ?sv = "ex_engine (Inl (JsError ''boom'' None))"
  let ?h = "ex_host ?sv"
  let ?p = "''/w/node_modules/vitest/package.json''"
  have missing: "host_require_resolve ex_host_missing = Inl (JsError ''Cannot find module'' None)"
    by (simp add: ex_host_missing_def)
  have broken: "host_require_resolve ex_host_broken = Inr ?p \<and> ?p \<noteq> [] \<and>
      host_import_startVitest ex_host_broken ?p = Inl (JsString ''bad syntax '')"
    by (simp add: ex_host_broken_def ex_host_def)
  have no_export: "host_require_resolve ex_host_no_export = Inr ?p \<and> ?p \<noteq> [] \<and>
      host_import_startVitest ex_host_no_export ?p = Inr None"
    by (simp add: ex_host_no_export_def ex_host_def)
  have threw: "engine_loaded ?h ?sv \<and>
      outcome (startVitest_call ?h ?sv ex_env [''a.test.ts'']) = Inl (JsError ''boom'' None)"
    by (simp add: ex_host_loaded ex_engine_outcome)
  have streams: "concat (stdout_chunks (startVitest_call ?h ?sv ex_env [''a.test.ts''])) = '' RUN v3 ''"
    "concat (stderr_chunks (startVitest_call ?h ?sv ex_env [''a.test.ts''])) = ''warn'' @ [CHR 0x0A]"
    by (simp_all add: startVitest_call_def ex_engine_def)
  have r1: "snd (runTests ex_host_missing ex_env [''a.test.ts'']) =
      Inr (failure_summary [''a.test.ts''] not_installed_message)"
    using engine_failures_become_summaries
      [of ex_host_missing "JsError ''Cannot find module'' None" ex_env "[''a.test.ts'']"]
      missing
    by simp
  have r2: "snd (runTests ex_host_broken ex_env [''a.test.ts'', ''b.test.ts'']) =
      Inr (failure_summary [''a.test.ts'', ''b.test.ts'']
             (trim (load_failure_message (JsString ''bad syntax ''))))"
    using engine_failures_become_summaries
      [of ex_host_broken "JsString ''bad syntax ''" ex_env "[''a.test.ts'', ''b.test.ts'']" ?p]
      broken
    by simp
  have r3: "snd (runTests ex_host_no_export ex_env [''a.test.ts'']) =
      Inr (failure_summary [''a.test.ts''] no_export_message)"
    using engine_failures_become_summaries
      [of ex_host_no_export _ ex_env "[''a.test.ts'']" ?p]
      no_export
    by simp
  have r4: "snd (runTests ?h ex_env [''a.test.ts'']) =
      Inr (failure_summary [''a.test.ts'']
             (execution_failure_message (JsError ''boom'' None) '' RUN v3 ''
                (''warn'' @ [CHR 0x0A])))"
    using engine_failures_become_summaries
      [of ?h "JsError ''boom'' None" ex_env "[''a.test.ts'']" _ ?sv]
      threw
    by (simp add: streams)
  have m2: "trim (load_failure_message (JsString ''bad syntax '')) =
      ''[webstir-io/vitest-testing] Unable to load the Vitest runtime: bad syntax''"
    by (simp add: load_failure_message_def load_failure_reason_def trim_def js_whitespace_def)
  have m4: "execution_failure_message (JsError ''boom'' None) '' RUN v3 '' (''warn'' @ [CHR 0x0A]) =
      ''Vitest execution failed: boom'' @ blank_line @
      ''[stdout]'' @ [CHR 0x0A] @ ''RUN v3'' @ blank_line @ ''[stderr]'' @ [CHR 0x0A] @ ''warn''"
    by (simp add: execution_failure_message_def execution_failure_reason_def output_section_def
        trim_def js_whitespace_def)
  show ?thesis
    unfolding r1 r2 r3 r4 m2 m4
    by (simp add: failure_summary_def failing_result_def)
qed

section \<open>Failure summaries carry no duration and the caller's paths\<close>

lemma engine_returned_Some:
  "(engine_returned h env files = Some ctx) =
     (\<exists>sv. engine_loaded h sv \<and> outcome (startVitest_call h sv env files) = Inr ctx)"
  by (auto simp add: engine_returned_def engine_loaded_def split: sum.splits option.splits)

lemma engine_returned_None:
  "engine_returned h env files = None \<Longrightarrow>
   \<exists>msg. snd (runVitest h env files) = Inr (failure_summary files msg)"
  by (auto simp add: engine_returned_def runVitest_def resolveVitestPackage_def
      invoke_engine_def Let_def createFailureSummary_eq
      split: sum.splits option.splits if_splits)

lemma failure_summary_shape:
  "files \<noteq> [] \<Longrightarrow>
   summary_durationMs (failure_summary files msg) = 0 \<and>
   list_all (\<lambda>r. res_durationMs r = 0) (summary_results (failure_summary files msg)) \<and>
   map res_file (summary_results (failure_summary files msg)) = files"
  by (simp add: failure_summary_def failing_result_def list_all_iff o_def)

lemma collectTaskResults_files:
  "r \<in> set (collectTaskResults tasks fp []) \<Longrightarrow>
   res_file r = (if fp \<noteq> [] then fp else ''[vitest]'')"
  by (auto simp add: collectTaskResults_outcomes [of tasks fp "[]"] outcomes_def
      test_result_def Let_def)

lemma first_or_placeholder_resolved:
  "first_or_placeholder (map path_resolve files) \<in> range path_resolve \<or>
   first_or_placeholder (map path_resolve files) = ''[vitest]''"
  by (cases files) (simp_all add: first_or_placeholder_def)

lemma module_step_files:
  assumes "list_all (resolved_or_placeholder path_resolve) (fst st)"
  shows "list_all (resolved_or_placeholder path_resolve)
           (fst (module_step path_resolve requestedSet (map path_resolve files) m st))"
proof -
  have target: "fp \<in> range path_resolve \<or> fp = ''[vitest]'' \<Longrightarrow>
      list_all (resolved_or_placeholder path_resolve) (collectTaskResults tasks fp (fst st))"
    for fp tasks
    using assms collectTaskResults_files [of _ tasks fp]
    by (subst collectTaskResults_acc)
       (auto simp add: list_all_iff resolved_or_placeholder_def split: if_splits)
  have empty: "path_resolve p = [] \<Longrightarrow> [] \<in> range path_resolve" for p
    by (metis rangeI)
  show ?thesis
    using assms first_or_placeholder_resolved [of path_resolve files]
    by (auto simp add: module_step_def Let_def module_file_def intro!: target
        intro: empty split: option.splits if_splits)
qed

lemma modules_loop_files:
  "list_all (resolved_or_placeholder path_resolve) (fst st) \<Longrightarrow>
   list_all (resolved_or_placeholder path_resolve)
     (fst (modules_loop path_resolve requestedSet (map path_resolve files) modules st))"
  by (induction modules arbitrary: st) (simp_all add: module_step_files)

lemma buildSummaryFromVitest_files:
  "list_all (resolved_or_placeholder path_resolve)
     (summary_results
        (buildSummaryFromVitest path_resolve modules unhandledErrors (map path_resolve files)))"
proof -
  have "list_all (resolved_or_placeholder path_resolve)
      (flattened_results path_resolve modules (map path_resolve files))"
    unfolding flattened_results_def
    by (rule modules_loop_files) simp
  moreover have "list_all (resolved_or_placeholder path_resolve)
      (map (unhandled_result (map path_resolve files)) es)" for es
    using first_or_placeholder_resolved [of path_resolve files]
    by (auto simp add: list_all_iff unhandled_result_def resolved_or_placeholder_def)
  ultimately show ?thesis
    by (simp add: buildSummaryFromVitest_results)
qed

lemma ex_unhandled_run:
  "snd (runTests (ex_host (ex_engine (Inr ex_context_unhandled))) ex_env [''a.test.ts'']) =
     Inr \<lparr>summary_passed = 2, summary_failed = 1, summary_total = 3, summary_durationMs = 10,
          summary_results =
            [\<lparr>res_name = ''inner'', res_file = ''/w/a.test.ts'', res_passed = True,
              res_message = None, res_durationMs = 5\<rparr>,
             \<lparr>res_name = ''inner'', res_file = ''/w/a.test.ts'', res_passed = True,
              res_message = None, res_durationMs = 5\<rparr>,
             \<lparr>res_name = ''[unhandled]'', res_file = ''/w/a.test.ts'', res_passed = False,
              res_message = Some ''late rejection'', res_durationMs = 0\<rparr>]\<rparr>"
proof -
  let ?sv = "ex_engine (Inr ex_context_unhandled)"
  let ?h = "ex_host ?sv"
  have build: "buildSummaryFromVitest (host_path_resolve ?h) (getFiles ex_context_unhandled)
       (context_unhandled ex_context_unhandled) [host_path_resolve ?h ''a.test.ts''] =
     \<lparr>summary_passed = 2, summary_failed = 1, summary_total = 3, summary_durationMs = 10,
      summary_results =
          [\<lparr>res_name = ''inner'', res_file = ''/w/a.test.ts'', res_passed = True,
            res_message = None, res_durationMs = 5\<rparr>,
           \<lparr>res_name = ''inner'', res_file = ''/w/a.test.ts'', res_passed = True,
            res_message = None, res_durationMs = 5\<rparr>,
           \<lparr>res_name = ''[unhandled]'', res_file = ''/w/a.test.ts'', res_passed = False,
            res_message = Some ''late rejection'', res_durationMs = 0\<rparr>]\<rparr>"
    by (simp add: ex_host_defs ex_module_defs ex_defs summary_defs flatten_defs)
  show ?thesis
    using runTests_returned [of "[''a.test.ts'']" ?h ?sv ex_env ex_context_unhandled]
    by (simp add: ex_host_loaded ex_engine_outcome build)
qed

text \<open>
  C10. For a non-empty file list, whenever the engine did not resolve to a context (it
  is unavailable, failed to load, has no export, or rejected), the summary that
  \<open>runTests\<close> returns has \<open>durationMs = 0\<close>, every result has \<open>durationMs = 0\<close>, and
  the files of the results are the caller's strings as written, whatever the clock and
  \<^verbatim>\<open>path.resolve\<close> are. When the engine resolved, every result is filed under a path
  that \<^verbatim>\<open>path.resolve\<close> returned, or under the placeholder.
\<close>

theorem failure_summaries_zero_duration_verbatim_files:
  "(files \<noteq> [] \<and> engine_returned h env files = None \<longrightarrow>
      (\<exists>s. snd (runTests h env files) = Inr s \<and>
           summary_durationMs s = 0 \<and>
           list_all (\<lambda>r. res_durationMs r = 0) (summary_results s) \<and>
           map res_file (summary_results s) = files)) \<and>
   (files \<noteq> [] \<and> engine_returned h env files = Some ctx \<longrightarrow>
      (\<exists>s. snd (runTests h env files) = Inr s \<and>
           list_all (\<lambda>r. res_file r \<in> range (host_path_resolve h) \<or> res_file r = ''[vitest]'')
             (summary_results s)))"
proof (intro conjI impI)
  assume a: "files \<noteq> [] \<and> engine_returned h env files = None"
  then obtain msg where "snd (runVitest h env files) = Inr (failure_summary files msg)"
    using engine_returned_None by blast
  with a have "snd (runTests h env files) = Inr (failure_summary files msg)"
    by (simp add: runTests_nonempty)
  with a failure_summary_shape [of files msg]
  show "\<exists>s. snd (runTests h env files) = Inr s \<and>
           summary_durationMs s = 0 \<and>
           list_all (\<lambda>r. res_durationMs r = 0) (summary_results s) \<and>
           map res_file (summary_results s) = files"
    by blast
next
  assume a: "files \<noteq> [] \<and> engine_returned h env files = Some ctx"
  then obtain sv where sv: "engine_loaded h sv"
      "outcome (startVitest_call h sv env files) = Inr ctx"
    using engine_returned_Some [of h env files ctx] by blast
  let ?summary = "buildSummaryFromVitest (host_path_resolve h) (getFiles ctx)
                  (context_unhandled ctx) (map (host_path_resolve h) files)"
  let ?s = "let summary = ?summary
            in if summary_durationMs summary > 0 then summary
               else summary\<lparr>summary_durationMs :=
                      now_after (startVitest_call h sv env files) - host_now h\<rparr>"
  from a sv have run: "snd (runTests h env files) = Inr ?s"
    by (intro runTests_returned) simp_all
  have "summary_results ?s = summary_results ?summary"
    by (simp add: Let_def)
  with buildSummaryFromVitest_files [of "host_path_resolve h" "getFiles ctx"
      "context_unhandled ctx" files]
  have "list_all (\<lambda>r. res_file r \<in> range (host_path_resolve h) \<or> res_file r = ''[vitest]'')
          (summary_results ?s)"
    by (simp only: resolved_or_placeholder_def [abs_def])
  with run show "\<exists>s. snd (runTests h env files) = Inr s \<and>
           list_all (\<lambda>r. res_file r \<in> range (host_path_resolve h) \<or> res_file r = ''[vitest]'')
             (summary_results s)"
    by blast
qed

theorem failure_summaries_zero_duration_verbatim_files_witness:
  "engine_returned ex_host_missing ex_env [''a.test.ts'', ''../b.test.ts''] = None \<and>
   host_now (ex_host (ex_engine (Inl (JsError ''boom'' None)))) = 1000 \<and>
   now_after (startVitest_call (ex_host (ex_engine (Inl (JsError ''boom'' None))))
                (ex_engine (Inl (JsError ''boom'' None))) ex_env [''a.test.ts'']) = 1200 \<and>
   engine_returned (ex_host (ex_engine (Inl (JsError ''boom'' None)))) ex_env [''a.test.ts'']
     = None \<and>
   (\<exists>s. snd (runTests ex_host_missing ex_env [''a.test.ts'', ''../b.test.ts'']) = Inr s \<and>
        summary_durationMs s = 0 \<and>
        map res_durationMs (summary_results s) = [0, 0] \<and>
        map res_file (summary_results s) = [''a.test.ts'', ''../b.test.ts'']) \<and>
   (\<exists>s. snd (runTests (ex_host (ex_engine (Inl (JsError ''boom'' None)))) ex_env
               [''a.test.ts'']) = Inr s \<and>
        summary_durationMs s = 0 \<and>
        map res_durationMs (summary_results s) = [0] \<and>
        map res_file (summary_results s) = [''a.test.ts'']) \<and>
   engine_returned (ex_host (ex_engine (Inr ex_context_unhandled))) ex_env [''a.test.ts'']
     = Some ex_context_unhandled \<and>
   (\<exists>s. snd (runTests (ex_host (ex_engine (Inr ex_context_unhandled))) ex_env [''a.test.ts''])
          = Inr s \<and>
        map res_file (summary_results s) = [''/w/a.test.ts'', ''/w/a.test.ts'', ''/w/a.test.ts''])"
proof -
  let ?boom = "ex_engine (Inl (JsError ''boom'' None))"
  let ?ok = "ex_engine (Inr ex_context_unhandled)"
  have none1: "engine_returned ex_host_missing ex_env [''a.test.ts'', ''../b.test.ts''] = None"
    by (simp add: engine_returned_def ex_host_missing_def)
  have none2: "engine_returned (ex_host ?boom) ex_env [''a.test.ts''] = None"
    by (simp add: engine_returned_def ex_host_def startVitest_call_def ex_engine_def)
  have some: "engine_returned (ex_host ?ok) ex_env [''a.test.ts''] = Some ex_context_unhandled"
    by (simp add: engine_returned_def ex_host_def startVitest_call_def ex_engine_def)
  have zero: "list_all (\<lambda>r. res_durationMs r = 0) rs \<Longrightarrow> length rs = n \<Longrightarrow>
      map res_durationMs rs = replicate n 0" for rs :: "TestRunResult list" and n
    by (induction rs arbitrary: n) auto
  have len: "map res_file rs = fs \<Longrightarrow> length rs = length fs" for rs :: "TestRunResult list" and fs
    by auto
  from failure_summaries_zero_duration_verbatim_files
    [of "[''a.test.ts'', ''../b.test.ts'']" ex_host_missing ex_env] none1
  have f1: "\<exists>s. snd (runTests ex_host_missing ex_env [''a.test.ts'', ''../b.test.ts'']) = Inr s \<and>
        summary_durationMs s = 0 \<and>
        map res_durationMs (summary_results s) = [0, 0] \<and>
        map res_file (summary_results s) = [''a.test.ts'', ''../b.test.ts'']"
    using zero [of _ 2] len [of _ "[''a.test.ts'', ''../b.test.ts'']"]
    by (auto simp add: numeral_2_eq_2)
  from failure_summaries_zero_duration_verbatim_files
    [of "[''a.test.ts'']" "ex_host ?boom" ex_env] none2
  have f2: "\<exists>s. snd (runTests (ex_host ?boom) ex_env [''a.test.ts'']) = Inr s \<and>
        summary_durationMs s = 0 \<and>
        map res_durationMs (summary_results s) = [0] \<and>
        map res_file (summary_results s) = [''a.test.ts'']"
    using zero [of _ 1] len [of _ "[''a.test.ts'']"]
    by auto
  have f3: "\<exists>s. snd (runTests (ex_host ?ok) ex_env [''a.test.ts'']) = Inr s \<and>
        map res_file (summary_results s) = [''/w/a.test.ts'', ''/w/a.test.ts'', ''/w/a.test.ts'']"
    by (simp add: ex_unhandled_run)
  from none1 none2 some f1 f2 f3 show ?thesis
    by (simp add: ex_host_now ex_engine_now_after)
qed

section \<open>The environment markers are set for the call and restored after it\<close>

lemma set_markers_values:
  "set_markers env ''WEBSTIR_TEST_PROVIDER'' = Some ''vitest''"
  "set_markers env ''WEBSTIR_TESTING_PROVIDER'' = Some ''@webstir-io/vitest-testing''"
  "set_markers env ''WEBSTIR_TESTING_PROVIDER_SPEC'' =
     Some (case env ''WEBSTIR_TESTING_PROVIDER_SPEC'' of None \<Rightarrow> [] | Some v \<Rightarrow> v)"
  "k \<notin> provider_markers \<Longrightarrow> set_markers env k = env k"
  by (simp_all add: set_markers_def Let_def provider_markers_def)

lemma restore_marker_apply:
  "restore_marker key original env k = (if k = key then original else env k)"
  by (cases original) (simp_all add: restore_marker_def)

lemma invoke_engine_env:
  "fst (invoke_engine h sv env files) k =
     (if k \<in> provider_markers then env k
      else env_after (startVitest_call h sv env files) k)"
  by (simp add: invoke_engine_def Let_def restore_marker_apply provider_markers_def)

text \<open>
  C9. When the engine is loaded, it is called on the environment in which the three
  markers are set: the provider kind to \<^verbatim>\<open>vitest\<close>, the provider identity to the
  package name, the provider spec to its own prior value, or to the empty string when
  it was unset; the other variables are as they were. Whether the call resolves or
  rejects, and whatever environment it leaves behind, each marker is afterwards what
  it was before the call (unset when it was unset), and every other variable is as
  the engine left it.
\<close>

theorem markers_set_and_restored:
  "engine_loaded h sv \<longrightarrow>
     startVitest_call h sv env files =
       sv (set_markers env) ''test''
         (map (normalizeCliFilter h) (map (host_path_resolve h) files))
         \<lparr>opt_run = True, opt_watch = False, opt_passWithNoTests = True,
          opt_reporters = [], opt_silent = True\<rparr> \<and>
     set_markers env ''WEBSTIR_TEST_PROVIDER'' = Some ''vitest'' \<and>
     set_markers env ''WEBSTIR_TESTING_PROVIDER'' = Some ''@webstir-io/vitest-testing'' \<and>
     set_markers env ''WEBSTIR_TESTING_PROVIDER_SPEC'' =
       Some (case env ''WEBSTIR_TESTING_PROVIDER_SPEC'' of None \<Rightarrow> [] | Some v \<Rightarrow> v) \<and>
     fst (runVitest h env files) ''WEBSTIR_TEST_PROVIDER'' = env ''WEBSTIR_TEST_PROVIDER'' \<and>
     fst (runVitest h env files) ''WEBSTIR_TESTING_PROVIDER'' = env ''WEBSTIR_TESTING_PROVIDER'' \<and>
     fst (runVitest h env files) ''WEBSTIR_TESTING_PROVIDER_SPEC'' =
       env ''WEBSTIR_TESTING_PROVIDER_SPEC'' \<and>
     (\<forall>k. k \<notin> provider_markers \<longrightarrow>
        set_markers env k = env k \<and>
        fst (runVitest h env files) k = env_after (startVitest_call h sv env files) k)"
proof
  assume loaded: "engine_loaded h sv"
  have run: "runVitest h env files = invoke_engine h sv env files"
    using loaded by (rule runVitest_loaded)
  have "fst (runVitest h env files) k = env k" if "k \<in> provider_markers" for k
    using that by (simp add: run invoke_engine_env)
  then have restored:
    "fst (runVitest h env files) ''WEBSTIR_TEST_PROVIDER'' = env ''WEBSTIR_TEST_PROVIDER''"
    "fst (runVitest h env files) ''WEBSTIR_TESTING_PROVIDER'' = env ''WEBSTIR_TESTING_PROVIDER''"
    "fst (runVitest h env files) ''WEBSTIR_TESTING_PROVIDER_SPEC'' =
       env ''WEBSTIR_TESTING_PROVIDER_SPEC''"
    by (simp_all add: provider_markers_def)
  have frame: "\<forall>k. k \<notin> provider_markers \<longrightarrow>
        set_markers env k = env k \<and>
        fst (runVitest h env files) k = env_after (startVitest_call h sv env files) k"
    by (simp add: run invoke_engine_env set_markers_values)
  have call: "startVitest_call h sv env files =
       sv (set_markers env) ''test''
         (map (normalizeCliFilter h) (map (host_path_resolve h) files))
         \<lparr>opt_run = True, opt_watch = False, opt_passWithNoTests = True,
          opt_reporters = [], opt_silent = True\<rparr>"
    by (simp add: startVitest_call_def Let_def)
  from call restored frame set_markers_values(1,2,3) [of env]
  show "startVitest_call h sv env files =
       sv (set_markers env) ''test''
         (map (normalizeCliFilter h) (map (host_path_resolve h) files))
         \<lparr>opt_run = True, opt_watch = False, opt_passWithNoTests = True,
          opt_reporters = [], opt_silent = True\<rparr> \<and>
     set_markers env ''WEBSTIR_TEST_PROVIDER'' = Some ''vitest'' \<and>
     set_markers env ''WEBSTIR_TESTING_PROVIDER'' = Some ''@webstir-io/vitest-testing'' \<and>
     set_markers env ''WEBSTIR_TESTING_PROVIDER_SPEC'' =
       Some (case env ''WEBSTIR_TESTING_PROVIDER_SPEC'' of None \<Rightarrow> [] | Some v \<Rightarrow> v) \<and>
     fst (runVitest h env files) ''WEBSTIR_TEST_PROVIDER'' = env ''WEBSTIR_TEST_PROVIDER'' \<and>
     fst (runVitest h env files) ''WEBSTIR_TESTING_PROVIDER'' = env ''WEBSTIR_TESTING_PROVIDER'' \<and>
     fst (runVitest h env files) ''WEBSTIR_TESTING_PROVIDER_SPEC'' =
       env ''WEBSTIR_TESTING_PROVIDER_SPEC'' \<and>
     (\<forall>k. k \<notin> provider_markers \<longrightarrow>
        set_markers env k = env k \<and>
        fst (runVitest h env files) k = env_after (startVitest_call h sv env files) k)"
    by blast
qed

theorem markers_set_and_restored_witness:
  "engine_loaded (ex_host (ex_engine (Inl (JsError ''boom'' None))))
     (ex_engine (Inl (JsError ''boom'' None))) \<and>
   engine_loaded (ex_host (ex_engine (Inr ex_context_zero))) (ex_engine (Inr ex_context_zero)) \<and>
   ex_env ''WEBSTIR_TEST_PROVIDER'' = Some ''node'' \<and>
   ex_env ''WEBSTIR_TESTING_PROVIDER'' = None \<and>
   ex_env ''WEBSTIR_TESTING_PROVIDER_SPEC'' = None \<and>
   set_markers ex_env ''WEBSTIR_TEST_PROVIDER'' = Some ''vitest'' \<and>
   set_markers ex_env ''WEBSTIR_TESTING_PROVIDER_SPEC'' = Some [] \<and>
   env_after (startVitest_call (ex_host (ex_engine (Inr ex_context_zero)))
                (ex_engine (Inr ex_context_zero)) ex_env [''a.test.ts''])
     ''WEBSTIR_TEST_PROVIDER'' = Some ''overwritten'' \<and>
   fst (runVitest (ex_host (ex_engine (Inr ex_context_zero))) ex_env [''a.test.ts''])
     ''WEBSTIR_TEST_PROVIDER'' = Some ''node'' \<and>
   fst (runVitest (ex_host (ex_engine (Inr ex_context_zero))) ex_env [''a.test.ts''])
     ''WEBSTIR_TESTING_PROVIDER'' = None \<and>
   fst (runVitest (ex_host (ex_engine (Inr ex_context_zero))) ex_env [''a.test.ts''])
     ''WEBSTIR_TESTING_PROVIDER_SPEC'' = None \<and>
   fst (runVitest (ex_host (ex_engine (Inl (JsError ''boom'' None)))) ex_env [''a.test.ts''])
     ''WEBSTIR_TEST_PROVIDER'' = Some ''node'' \<and>
   fst (runVitest (ex_host (ex_engine (Inl (JsError ''boom'' None)))) ex_env [''a.test.ts''])
     ''WEBSTIR_TESTING_PROVIDER'' = None \<and>
   fst (runVitest (ex_host (ex_engine (Inl (JsError ''boom'' None)))) ex_env [''a.test.ts''])
     ''WEBSTIR_TESTING_PROVIDER_SPEC'' = None \<and>
   fst (runVitest (ex_host (ex_engine (Inl (JsError ''boom'' None)))) ex_env [''a.test.ts''])
     ''VITEST'' = Some ''true''"
proof -
  let ?boom = "ex_engine (Inl (JsError ''boom'' None))"
  let ?ok = "ex_engine (Inr ex_context_zero)"
  have env: "ex_env ''WEBSTIR_TEST_PROVIDER'' = Some ''node''"
    "ex_env ''WEBSTIR_TESTING_PROVIDER'' = None"
    "ex_env ''WEBSTIR_TESTING_PROVIDER_SPEC'' = None"
    by (simp_all add: ex_env_def)
  have after: "env_after (startVitest_call (ex_host sv) (ex_engine result) ex_env fs) =
      (set_markers ex_env)(''VITEST'' \<mapsto> ''true'', ''WEBSTIR_TEST_PROVIDER'' \<mapsto> ''overwritten'')"
    for sv result fs
    by (simp add: startVitest_call_def ex_engine_def)
  have other: "''VITEST'' \<notin> provider_markers"
    by (simp add: provider_markers_def)
  note boom = markers_set_and_restored [of "ex_host ?boom" ?boom ex_env "[''a.test.ts'']",
      THEN mp, OF ex_host_loaded]
  note ok = markers_set_and_restored [of "ex_host ?ok" ?ok ex_env "[''a.test.ts'']",
      THEN mp, OF ex_host_loaded]
  from boom other
  have "fst (runVitest (ex_host ?boom) ex_env [''a.test.ts'']) ''VITEST'' =
      env_after (startVitest_call (ex_host ?boom) ?boom ex_env [''a.test.ts'']) ''VITEST''"
    by blast
  then have vitest: "fst (runVitest (ex_host ?boom) ex_env [''a.test.ts'']) ''VITEST'' =
      Some ''true''"
    by (simp add: after)
  from boom have b: "fst (runVitest (ex_host ?boom) ex_env [''a.test.ts''])
        ''WEBSTIR_TEST_PROVIDER'' = Some ''node''"
      "fst (runVitest (ex_host ?boom) ex_env [''a.test.ts''])
        ''WEBSTIR_TESTING_PROVIDER'' = None"
      "fst (runVitest (ex_host ?boom) ex_env [''a.test.ts''])
        ''WEBSTIR_TESTING_PROVIDER_SPEC'' = None"
    by (simp_all only: env)
  from ok have o: "fst (runVitest (ex_host ?ok) ex_env [''a.test.ts''])
        ''WEBSTIR_TEST_PROVIDER'' = Some ''node''"
      "fst (runVitest (ex_host ?ok) ex_env [''a.test.ts''])
        ''WEBSTIR_TESTING_PROVIDER'' = None"
      "fst (runVitest (ex_host ?ok) ex_env [''a.test.ts''])
        ''WEBSTIR_TESTING_PROVIDER_SPEC'' = None"
      "set_markers ex_env ''WEBSTIR_TEST_PROVIDER'' = Some ''vitest''"
      "set_markers ex_env ''WEBSTIR_TESTING_PROVIDER_SPEC'' = Some []"
    by (simp_all only: env option.case)
  show ?thesis
    by (simp only: b o vitest env ex_host_loaded simp_thms) (simp add: after)
qed

end
